theory Spec2Isabelle
  imports Main "HOL-Library.Word"
begin

section \<open>Native core of the macOS watch service (MacOSXWatchService.c)\<close>

text \<open>
  The C file is embedded function by function. The JNI environment, CoreFoundation and
  the FSEvents service are outside the file: what they answer (success, NULL, a thrown
  exception) is a parameter of the model, and what the file's functions do to them is
  written into an explicit state that every function takes and returns.
\<close>

subsection \<open>Machine types\<close>

type_synonym size_t = "64 word"
type_synonym jsize = "32 word"
type_synonym jint = "32 word"
type_synonym jlong = "64 word"

text \<open>A C path (\<open>char *\<close>), a Java string, and a Java \<open>String[]\<close> whose slots are
  \<open>null\<close> (\<open>None\<close>) until they are set.\<close>

type_synonym cpath = string
type_synonym jstring = string
type_synonym jobjectArray = "jstring option list"

subsection \<open>The forwarding call and the thread's state\<close>

text \<open>
  One \<open>JNU_CallMethodByName(env, &hasException, handlerThreadObject, "callback", ...,
  (jlong) streamRef, numEventsToReport, javaEventPathsArray,
  (jlong)&eventFlags[eventIndex], (jlong)&eventIds[eventIndex])\<close>.
  The two pointers are kept as the index they point at; the array is the value it has at
  the moment of the call (\<open>None\<close> is the NULL pointer).
\<close>

record fcall =
  fc_handler :: jlong
  fc_stream :: jlong
  fc_count :: jsize
  fc_paths :: "jobjectArray option"
  fc_flagsPtr :: size_t
  fc_idsPtr :: size_t

text \<open>The lines the file prints when \<open>tracingEnabled\<close> is set, and the report of
  \<open>ExceptionDescribe\<close>.\<close>

datatype outline =
    CallbackFired
  | HandlerThread jlong
  | ExceptionDescribed
  | CreatedEventStream jlong
  | ScheduledStream jlong jlong
  | GetCurrentRunLoop jlong
  | RunningRunLoop jlong
  | RunLoopDone jlong
  | StoppingRunLoop jlong

text \<open>
  The state of the thread that runs the callback: whether a Java exception is pending,
  how many local reference frames are pushed, the forwarding calls made so far (oldest
  first) and the printed lines.
\<close>

record jstate =
  pending :: bool
  frames :: nat
  forwarded :: "fcall list"
  out :: "outline list"

subsection \<open>What the Java runtime answers\<close>

text \<open>
  A JNI function succeeds, fails without an exception (returns NULL or an error code),
  or fails with an exception left pending.
\<close>

datatype jni_outcome = Succeeds | Fails | Throws

text \<open>
  The answers of the runtime. The first argument of each answer is the number of
  forwarding calls made before (the ordinal of the current chunk); the string
  conversion is also given the index of the path inside the chunk.
\<close>

record jvm =
  GetEnv_ok :: bool
  PushLocalFrame_outcome :: "nat \<Rightarrow> jint \<Rightarrow> jni_outcome"
  NewObjectArray_outcome :: "nat \<Rightarrow> jsize \<Rightarrow> jni_outcome"
  NewStringPlatform_outcome :: "nat \<Rightarrow> nat \<Rightarrow> cpath \<Rightarrow> jni_outcome"
  handler_throws :: "nat \<Rightarrow> fcall \<Rightarrow> bool"

definition round_no :: "jstate \<Rightarrow> nat" where
  "round_no st = length (forwarded st)"

subsection \<open>JNI functions the file calls\<close>

definition ExceptionCheck :: "jstate \<Rightarrow> bool" where
  "ExceptionCheck st = pending st"

text \<open>\<open>ExceptionDescribe\<close> prints the pending exception and, as the JNI specification
  says, clears it.\<close>

definition ExceptionDescribe :: "jstate \<Rightarrow> jstate" where
  "ExceptionDescribe st = st\<lparr>pending := False, out := out st @ [ExceptionDescribed]\<rparr>"

definition printf :: "outline \<Rightarrow> jstate \<Rightarrow> jstate" where
  "printf l st = st\<lparr>out := out st @ [l]\<rparr>"

text \<open>\<open>PushLocalFrame(env, capacity) == JNI_OK\<close>.\<close>

definition PushLocalFrame :: "jvm \<Rightarrow> jint \<Rightarrow> jstate \<Rightarrow> bool \<times> jstate" where
  "PushLocalFrame vm capacity st =
     (case PushLocalFrame_outcome vm (round_no st) capacity of
        Succeeds \<Rightarrow> (True, st\<lparr>frames := Suc (frames st)\<rparr>)
      | Fails \<Rightarrow> (False, st)
      | Throws \<Rightarrow> (False, st\<lparr>pending := True\<rparr>))"

definition PopLocalFrame :: "jstate \<Rightarrow> jstate" where
  "PopLocalFrame st = st\<lparr>frames := frames st - 1\<rparr>"

text \<open>\<open>NewObjectArray(env, len, JNU_ClassString(env), NULL)\<close>: an array of \<open>len\<close> nulls,
  or NULL.\<close>

definition NewObjectArray :: "jvm \<Rightarrow> jsize \<Rightarrow> jstate \<Rightarrow> jobjectArray option \<times> jstate" where
  "NewObjectArray vm len st =
     (case NewObjectArray_outcome vm (round_no st) len of
        Succeeds \<Rightarrow> (Some (replicate (nat (sint len)) None), st)
      | Fails \<Rightarrow> (None, st)
      | Throws \<Rightarrow> (None, st\<lparr>pending := True\<rparr>))"

text \<open>\<open>JNU_NewStringPlatform(env, str)\<close>: the Java string of the path, or NULL.\<close>

definition JNU_NewStringPlatform :: "jvm \<Rightarrow> nat \<Rightarrow> cpath \<Rightarrow> jstate \<Rightarrow> jstring option \<times> jstate" where
  "JNU_NewStringPlatform vm i str st =
     (case NewStringPlatform_outcome vm (round_no st) i str of
        Succeeds \<Rightarrow> (Some str, st)
      | Fails \<Rightarrow> (None, st)
      | Throws \<Rightarrow> (None, st\<lparr>pending := True\<rparr>))"

text \<open>\<open>SetObjectArrayElement(env, array, index, value)\<close>; an index outside the array
  throws \<open>ArrayIndexOutOfBoundsException\<close>.\<close>

definition SetObjectArrayElement ::
  "jobjectArray \<Rightarrow> nat \<Rightarrow> jstring \<Rightarrow> jstate \<Rightarrow> jobjectArray \<times> jstate" where
  "SetObjectArrayElement arr i v st =
     (if i < length arr then (arr[i := Some v], st) else (arr, st\<lparr>pending := True\<rparr>))"

text \<open>
  \<open>JNU_CallMethodByName\<close>: the call is made, the handler may throw, and
  \<open>hasException\<close> is what \<open>ExceptionCheck\<close> answers afterwards.
\<close>

definition JNU_CallMethodByName :: "jvm \<Rightarrow> fcall \<Rightarrow> jstate \<Rightarrow> bool \<times> jstate" where
  "JNU_CallMethodByName vm c st =
     (let st' = st\<lparr>pending := pending st \<or> handler_throws vm (round_no st) c,
                   forwarded := forwarded st @ [c]\<rparr>
      in (ExceptionCheck st', st'))"

subsection \<open>Faults of the C code\<close>

text \<open>
  Reading \<open>eventPathsArray[i]\<close> past the last of the paths the operating system passed,
  and storing through a NULL array, are undefined in C. The model stops there, with the
  state reached.
\<close>

datatype fault = ReadPastEventPaths nat jstate | NullArrayStore jstate

subsection \<open>convertToJavaStringArray\<close>

text \<open>
  The loop \<open>for (jsize i = 0; i < numEventsToReport; i++)\<close> from \<open>i\<close> on. The result is
  the \<open>jboolean\<close>, the array as the loop left it, and the state.
\<close>

function convert_from ::
  "jvm \<Rightarrow> bool \<Rightarrow> cpath list \<Rightarrow> size_t \<Rightarrow> jsize \<Rightarrow> nat \<Rightarrow> jobjectArray option \<Rightarrow> jstate
   \<Rightarrow> fault + (bool \<times> jobjectArray option \<times> jstate)" where
  "convert_from vm tracingEnabled eventPaths eventIndex numEventsToReport i javaEventPathsArray st =
     (if int i < sint numEventsToReport then
        (if unat eventIndex + i < length eventPaths then
           (case JNU_NewStringPlatform vm i (eventPaths ! (unat eventIndex + i)) st of
              (None, st1) \<Rightarrow>
                Inr (False, javaEventPathsArray,
                     if ExceptionCheck st1 \<and> tracingEnabled then ExceptionDescribe st1 else st1)
            | (Some path, st1) \<Rightarrow>
                (case javaEventPathsArray of
                   None \<Rightarrow> Inl (NullArrayStore st1)
                 | Some arr \<Rightarrow>
                     (case SetObjectArrayElement arr i path st1 of
                        (arr', st2) \<Rightarrow>
                          convert_from vm tracingEnabled eventPaths eventIndex numEventsToReport
                            (Suc i) (Some arr') st2)))
         else Inl (ReadPastEventPaths (unat eventIndex + i) st))
      else Inr (True, javaEventPathsArray, st))"
  by pat_completeness auto
termination
  by (relation "measure (\<lambda>(vm, tr, ps, e, n, i, a, st). nat (sint n) - i)") auto

declare convert_from.simps [simp del]

definition convertToJavaStringArray ::
  "jvm \<Rightarrow> bool \<Rightarrow> cpath list \<Rightarrow> size_t \<Rightarrow> jsize \<Rightarrow> jobjectArray option \<Rightarrow> jstate
   \<Rightarrow> fault + (bool \<times> jobjectArray option \<times> jstate)" where
  "convertToJavaStringArray vm tracingEnabled eventPaths eventIndex numEventsToReport
     javaEventPathsArray st =
     convert_from vm tracingEnabled eventPaths eventIndex numEventsToReport 0 javaEventPathsArray st"

subsection \<open>createJavaArray\<close>

definition createJavaArray ::
  "jvm \<Rightarrow> bool \<Rightarrow> jsize \<Rightarrow> jstate \<Rightarrow> bool \<times> jobjectArray option \<times> jstate" where
  "createJavaArray vm tracingEnabled numEventsToReport st =
     (case NewObjectArray vm numEventsToReport st of
        (javaEventPathsArray, st1) \<Rightarrow>
          if ExceptionCheck st1 then
            (False, javaEventPathsArray, if tracingEnabled then ExceptionDescribe st1 else st1)
          else (True, javaEventPathsArray, st1))"

subsection \<open>callback\<close>

text \<open>\<open>INT_MAX - 2\<close>, as a \<open>size_t\<close>.\<close>

definition MAX_EVENTS_TO_REPORT_AT_ONCE :: size_t where
  "MAX_EVENTS_TO_REPORT_AT_ONCE = 2147483647 - 2"

text \<open>
  The chunk size of one round. The conditional is a \<open>size_t\<close>; storing it in the
  \<open>jsize\<close> keeps its low 32 bits. The maximum is an argument, so that the loop can also
  be run with another maximum than the file's constant.
\<close>

definition numEventsToReport_of :: "size_t \<Rightarrow> size_t \<Rightarrow> size_t \<Rightarrow> jsize" where
  "numEventsToReport_of maxEvents numEventsTotal eventIndex =
     (let numEventsRemaining = numEventsTotal - eventIndex
      in ucast (if numEventsRemaining > maxEvents then maxEvents else numEventsTotal))"

text \<open>
  The body of the \<open>for\<close> loop, entered with \<open>OK\<close> true: it gives the new \<open>OK\<close>, the new
  \<open>eventIndex\<close> (the \<open>jsize\<close> is sign-extended when it is added) and the new state. The
  capacity \<open>numEventsToReport + 5\<close> is an \<open>int\<close>; where the sum overflows (undefined in C)
  the model wraps it around, and the value only reaches the answer of the runtime. The
  forwarding call is outside the \<open>if (OK)\<close> guards, as in the file, and \<open>hasException\<close> is
  used for tracing only.
\<close>

definition callback_body ::
  "jvm \<Rightarrow> bool \<Rightarrow> size_t \<Rightarrow> jlong \<Rightarrow> jlong \<Rightarrow> size_t \<Rightarrow> cpath list \<Rightarrow> size_t \<Rightarrow> jstate
   \<Rightarrow> fault + (bool \<times> size_t \<times> jstate)" where
  "callback_body vm tracingEnabled maxEvents streamRef clientCallBackInfo numEventsTotal
     eventPaths eventIndex st =
     (let numEventsToReport = numEventsToReport_of maxEvents numEventsTotal eventIndex;
          (localFramePushed, st1) = PushLocalFrame vm (numEventsToReport + 5) st;
          (OK2, javaEventPathsArray, st2) =
             (if localFramePushed then createJavaArray vm tracingEnabled numEventsToReport st1
              else (False, None, st1))
      in case (if OK2 then
                 convertToJavaStringArray vm tracingEnabled eventPaths eventIndex
                   numEventsToReport javaEventPathsArray st2
               else Inr (False, javaEventPathsArray, st2)) of
           Inl f \<Rightarrow> Inl f
         | Inr (OK3, javaEventPathsArray3, st3) \<Rightarrow>
             (let (hasException, st4) =
                    JNU_CallMethodByName vm
                      \<lparr>fc_handler = clientCallBackInfo, fc_stream = streamRef,
                       fc_count = numEventsToReport, fc_paths = javaEventPathsArray3,
                       fc_flagsPtr = eventIndex, fc_idsPtr = eventIndex\<rparr> st3;
                  st5 = (if tracingEnabled \<and> hasException then ExceptionDescribe st4 else st4);
                  st6 = (if localFramePushed then PopLocalFrame st5 else st5)
              in Inr (OK3, eventIndex + scast numEventsToReport, st6)))"

text \<open>
  The loop \<open>for (size_t eventIndex = 0; OK && (eventIndex < numEventsTotal); )\<close>. It need
  not end (a round that reports 0 events leaves \<open>eventIndex\<close> where it is), so it is a
  partial function: \<open>None\<close> is a run that never returns.
\<close>

partial_function (option) callback_loop ::
  "jvm \<Rightarrow> bool \<Rightarrow> size_t \<Rightarrow> jlong \<Rightarrow> jlong \<Rightarrow> size_t \<Rightarrow> cpath list \<Rightarrow> bool \<Rightarrow> size_t \<Rightarrow> jstate
   \<Rightarrow> (fault + jstate) option" where
  "callback_loop vm tracingEnabled maxEvents streamRef clientCallBackInfo numEventsTotal
     eventPaths OK eventIndex st =
     (if OK \<and> eventIndex < numEventsTotal then
        (case callback_body vm tracingEnabled maxEvents streamRef clientCallBackInfo
                numEventsTotal eventPaths eventIndex st of
           Inl f \<Rightarrow> Some (Inl f)
         | Inr (OK', eventIndex', st') \<Rightarrow>
             callback_loop vm tracingEnabled maxEvents streamRef clientCallBackInfo
               numEventsTotal eventPaths OK' eventIndex' st')
      else Some (Inr st))"

declare callback_loop.simps [code]

text \<open>The callback with the maximum chunk size as an argument.\<close>

definition callback_max ::
  "jvm \<Rightarrow> bool \<Rightarrow> size_t \<Rightarrow> jlong \<Rightarrow> jlong \<Rightarrow> size_t \<Rightarrow> cpath list \<Rightarrow> jstate
   \<Rightarrow> (fault + jstate) option" where
  "callback_max vm tracingEnabled maxEvents streamRef clientCallBackInfo numEventsTotal
     eventPaths st =
     (let st0 = (if tracingEnabled
                 then printf (HandlerThread clientCallBackInfo) (printf CallbackFired st)
                 else st)
      in if \<not> GetEnv_ok vm then Some (Inr st0)
         else callback_loop vm tracingEnabled maxEvents streamRef clientCallBackInfo
                numEventsTotal eventPaths True 0 st0)"

text \<open>The callback of the file: the maximum is \<open>MAX_EVENTS_TO_REPORT_AT_ONCE\<close>.\<close>

definition callback ::
  "jvm \<Rightarrow> bool \<Rightarrow> jlong \<Rightarrow> jlong \<Rightarrow> size_t \<Rightarrow> cpath list \<Rightarrow> jstate \<Rightarrow> (fault + jstate) option" where
  "callback vm tracingEnabled streamRef clientCallBackInfo numEventsTotal eventPaths st =
     callback_max vm tracingEnabled MAX_EVENTS_TO_REPORT_AT_ONCE streamRef clientCallBackInfo
       numEventsTotal eventPaths st"

section \<open>The life cycle of a watch\<close>

subsection \<open>Native calls and the state they act on\<close>

text \<open>
  Pointers and references are \<open>jlong\<close> values, 0 for NULL. The latency is carried as the
  bits of the \<open>jdouble\<close>; the file only passes it on.
\<close>

datatype native_call =
    Call_toCFString jstring
  | Call_CFArrayCreate jlong
  | Call_NewGlobalRef jlong
  | Call_FSEventStreamCreate jlong jlong "64 word" "64 word" jint
  | Call_SetField_globalThisRef jlong jlong
  | Call_FSEventStreamScheduleWithRunLoop jlong jlong
  | Call_FSEventStreamStart jlong
  | Call_CFRunLoopStop jlong
  | Call_DeleteGlobalRef jlong
  | Call_FSEventStreamStop jlong
  | Call_FSEventStreamInvalidate jlong
  | Call_FSEventStreamRelease jlong

text \<open>
  Modelled from the spec: the run loop of CoreFoundation is not in the file. Section 4.3
  of the specification gives its states, \<open>Idle \<rightarrow> Pumping \<rightarrow> StopRequested \<rightarrow> Stopped\<close>: any
  thread may request \<open>Pumping \<rightarrow> StopRequested\<close>, and only the hosting thread moves the
  loop to \<open>Stopped\<close>, by returning from \<open>Run()\<close>.
\<close>

datatype loop_state = Idle | Pumping | StopRequested | Stopped

text \<open>
  The native state: the calls made (oldest first), the JNI global references and the
  event streams that are alive, the \<open>globalThisRef\<close> field of the handler objects, the
  state of each run loop, whether a Java exception is pending, and the printed lines.
\<close>

record nstate =
  calls :: "native_call list"
  globalRefs :: "jlong list"
  liveStreams :: "jlong list"
  globalThisRef :: "jlong \<Rightarrow> jlong option"
  loopState :: "jlong \<Rightarrow> loop_state"
  jpending :: bool
  nout :: "outline list"

text \<open>What the platform answers to the calls of the file that return something.\<close>

record platform =
  toCFString_res :: "jstring \<Rightarrow> jlong"
  CFArrayCreate_res :: "jlong \<Rightarrow> jlong"
  NewGlobalRef_res :: "jlong \<Rightarrow> jlong"
  FSEventStreamCreate_res :: "jlong \<Rightarrow> jlong \<Rightarrow> 64 word \<Rightarrow> 64 word \<Rightarrow> jint \<Rightarrow> jlong"
  SetFieldByName_throws :: "jlong \<Rightarrow> bool"
  CFRunLoopGetCurrent_res :: jlong

text \<open>\<open>kFSEventStreamEventIdSinceNow\<close> of \<open>FSEvents.h\<close>.\<close>

definition kFSEventStreamEventIdSinceNow :: "64 word" where
  "kFSEventStreamEventIdSinceNow = 0xFFFFFFFFFFFFFFFF"

definition nprintf :: "bool \<Rightarrow> outline \<Rightarrow> nstate \<Rightarrow> nstate" where
  "nprintf tracingEnabled l w = (if tracingEnabled then w\<lparr>nout := nout w @ [l]\<rparr> else w)"

definition called :: "native_call \<Rightarrow> nstate \<Rightarrow> nstate" where
  "called c w = w\<lparr>calls := calls w @ [c]\<rparr>"

definition toCFString :: "platform \<Rightarrow> jstring \<Rightarrow> nstate \<Rightarrow> jlong \<times> nstate" where
  "toCFString os javaString w = (toCFString_res os javaString, called (Call_toCFString javaString) w)"

definition CFArrayCreate :: "platform \<Rightarrow> jlong \<Rightarrow> nstate \<Rightarrow> jlong \<times> nstate" where
  "CFArrayCreate os path w = (CFArrayCreate_res os path, called (Call_CFArrayCreate path) w)"

definition NewGlobalRef :: "platform \<Rightarrow> jlong \<Rightarrow> nstate \<Rightarrow> jlong \<times> nstate" where
  "NewGlobalRef os obj w =
     (let r = NewGlobalRef_res os obj;
          w1 = called (Call_NewGlobalRef obj) w
      in (r, if r = 0 then w1 else w1\<lparr>globalRefs := globalRefs w1 @ [r]\<rparr>))"

definition DeleteGlobalRef :: "jlong \<Rightarrow> nstate \<Rightarrow> nstate" where
  "DeleteGlobalRef r w =
     (let w1 = called (Call_DeleteGlobalRef r) w
      in w1\<lparr>globalRefs := remove1 r (globalRefs w1)\<rparr>)"

definition FSEventStreamCreate ::
  "platform \<Rightarrow> jlong \<Rightarrow> jlong \<Rightarrow> 64 word \<Rightarrow> 64 word \<Rightarrow> jint \<Rightarrow> nstate \<Rightarrow> jlong \<times> nstate" where
  "FSEventStreamCreate os info pathsToWatch sinceWhen latency flags w =
     (let stream = FSEventStreamCreate_res os info pathsToWatch sinceWhen latency flags;
          w1 = called (Call_FSEventStreamCreate info pathsToWatch sinceWhen latency flags) w
      in (stream, if stream = 0 then w1 else w1\<lparr>liveStreams := liveStreams w1 @ [stream]\<rparr>))"

text \<open>\<open>JNU_SetFieldByName(env, &hasException, obj, "globalThisRef", "J", value)\<close>. The file
  passes the result of \<open>NewGlobalRef\<close> as \<open>obj\<close> without a NULL check; what the store does
  on a NULL object is left to the answer of the platform, like any other failure of it.\<close>

definition JNU_SetFieldByName :: "platform \<Rightarrow> jlong \<Rightarrow> jlong \<Rightarrow> nstate \<Rightarrow> bool \<times> nstate" where
  "JNU_SetFieldByName os obj v w =
     (let w1 = called (Call_SetField_globalThisRef obj v) w
      in if SetFieldByName_throws os obj then (True, w1\<lparr>jpending := True\<rparr>)
         else (jpending w1, w1\<lparr>globalThisRef := (globalThisRef w1)(obj \<mapsto> v)\<rparr>))"

definition CFRunLoopStop :: "jlong \<Rightarrow> nstate \<Rightarrow> nstate" where
  "CFRunLoopStop rl w =
     (let w1 = called (Call_CFRunLoopStop rl) w
      in w1\<lparr>loopState := (loopState w1)
              (rl := (if loopState w1 rl = Pumping then StopRequested else loopState w1 rl))\<rparr>)"

definition FSEventStreamStop :: "jlong \<Rightarrow> nstate \<Rightarrow> nstate" where
  "FSEventStreamStop s w = called (Call_FSEventStreamStop s) w"

definition FSEventStreamInvalidate :: "jlong \<Rightarrow> nstate \<Rightarrow> nstate" where
  "FSEventStreamInvalidate s w = called (Call_FSEventStreamInvalidate s) w"

definition FSEventStreamRelease :: "jlong \<Rightarrow> nstate \<Rightarrow> nstate" where
  "FSEventStreamRelease s w =
     (let w1 = called (Call_FSEventStreamRelease s) w
      in w1\<lparr>liveStreams := remove1 s (liveStreams w1)\<rparr>)"

subsection \<open>The exported functions\<close>

text \<open>Creates the event stream; the first component of the result is the \<open>jlong\<close> the
  function returns. \<open>CHECK_NULL_RETURN(x, 0)\<close> of \<open>jni_util.h\<close> returns 0 when \<open>x\<close> is NULL.\<close>

definition Java_sun_nio_fs_MacOSXWatchService_createNewEventStreamFor ::
  "platform \<Rightarrow> bool \<Rightarrow> jstring \<Rightarrow> 64 word \<Rightarrow> jint \<Rightarrow> jlong \<Rightarrow> nstate \<Rightarrow> jlong \<times> nstate" where
  "Java_sun_nio_fs_MacOSXWatchService_createNewEventStreamFor os tracingEnabled dir latencyInSeconds flags localHandlerThreadObject w =
     (let (path, w1) = toCFString os dir w
      in if path = 0 then (0, w1)
         else
           (let (pathsToWatch, w2) = CFArrayCreate os path w1
            in if pathsToWatch = 0 then (0, w2)
               else
                 (let (handlerThreadObject, w3) = NewGlobalRef os localHandlerThreadObject w2;
                      (stream, w4) =
                         FSEventStreamCreate os handlerThreadObject pathsToWatch
                           kFSEventStreamEventIdSinceNow latencyInSeconds flags w3;
                      (hasException, w5) =
                         (if stream \<noteq> 0
                          then JNU_SetFieldByName os handlerThreadObject handlerThreadObject w4
                          else (False, w4))
                  in if stream \<noteq> 0 \<and> hasException then (0, w5)
                     else (stream,
                           nprintf tracingEnabled (CreatedEventStream stream)
                             (nprintf tracingEnabled (HandlerThread handlerThreadObject) w5)))))"

text \<open>Schedules the stream on the run loop of the current thread and starts it.\<close>

definition Java_sun_nio_fs_MacOSXWatchService_scheduleEventLoop :: "platform \<Rightarrow> bool \<Rightarrow> jlong \<Rightarrow> nstate \<Rightarrow> nstate" where
  "Java_sun_nio_fs_MacOSXWatchService_scheduleEventLoop os tracingEnabled eventStreamRef w =
     (let stream = eventStreamRef;
          w1 = called (Call_FSEventStreamScheduleWithRunLoop stream (CFRunLoopGetCurrent_res os)) w;
          w2 = called (Call_FSEventStreamStart stream) w1
      in nprintf tracingEnabled (ScheduledStream stream (CFRunLoopGetCurrent_res os)) w2)"

text \<open>Calls \<open>CFRunLoopStop\<close> on the given run loop, then deletes the global reference.\<close>

definition Java_sun_nio_fs_MacOSXWatchService_runLoopStop :: "bool \<Rightarrow> jlong \<Rightarrow> jlong \<Rightarrow> nstate \<Rightarrow> nstate" where
  "Java_sun_nio_fs_MacOSXWatchService_runLoopStop tracingEnabled runLoopRef handlerThreadObject w =
     (let w1 = nprintf tracingEnabled (StoppingRunLoop runLoopRef) w;
          w2 = CFRunLoopStop runLoopRef w1
      in DeleteGlobalRef handlerThreadObject w2)"

text \<open>Disposes of the given stream.\<close>

definition Java_sun_nio_fs_MacOSXWatchService_FSEventStreamInvalidate :: "jlong \<Rightarrow> nstate \<Rightarrow> nstate" where
  "Java_sun_nio_fs_MacOSXWatchService_FSEventStreamInvalidate eventStreamRef w =
     (let streamRef = eventStreamRef;
          w1 = FSEventStreamStop streamRef w;
          w2 = FSEventStreamInvalidate streamRef w1
      in FSEventStreamRelease streamRef w2)"

text \<open>The calls a function made: those of the state it returns that the state it was
  given did not have.\<close>

definition issued :: "nstate \<Rightarrow> nstate \<Rightarrow> native_call list" where
  "issued w w' = drop (length (calls w)) (calls w')"

section \<open>Runs in which the runtime never fails\<close>

text \<open>Every JNI call succeeds and the handler never throws.\<close>

definition all_succeed :: "jvm \<Rightarrow> bool" where
  "all_succeed vm \<longleftrightarrow>
     GetEnv_ok vm \<and>
     (\<forall>k c. PushLocalFrame_outcome vm k c = Succeeds) \<and>
     (\<forall>k n. NewObjectArray_outcome vm k n = Succeeds) \<and>
     (\<forall>k i p. NewStringPlatform_outcome vm k i p = Succeeds) \<and>
     (\<forall>k c. \<not> handler_throws vm k c)"

text \<open>A runtime of that kind, and a thread that has done nothing yet.\<close>

definition jvm_ok :: jvm where
  "jvm_ok = \<lparr>GetEnv_ok = True,
             PushLocalFrame_outcome = (\<lambda>k c. Succeeds),
             NewObjectArray_outcome = (\<lambda>k n. Succeeds),
             NewStringPlatform_outcome = (\<lambda>k i p. Succeeds),
             handler_throws = (\<lambda>k c. False)\<rparr>"

definition fresh :: jstate where
  "fresh = \<lparr>pending = False, frames = 0, forwarded = [], out = []\<rparr>"

text \<open>The forwarding call of a chunk whose paths were all converted.\<close>

definition full_call :: "jlong \<Rightarrow> jlong \<Rightarrow> cpath list \<Rightarrow> size_t \<Rightarrow> jsize \<Rightarrow> fcall" where
  "full_call streamRef clientCallBackInfo eventPaths eventIndex numEventsToReport =
     \<lparr>fc_handler = clientCallBackInfo, fc_stream = streamRef, fc_count = numEventsToReport,
      fc_paths = Some (map Some (take (nat (sint numEventsToReport))
                                   (drop (unat eventIndex) eventPaths))),
      fc_flagsPtr = eventIndex, fc_idsPtr = eventIndex\<rparr>"

text \<open>A platform that grants every request, and a native state in which nothing has
  happened yet.\<close>

definition platform_ok :: platform where
  "platform_ok = \<lparr>toCFString_res = (\<lambda>d. 100),
                  CFArrayCreate_res = (\<lambda>p. 200),
                  NewGlobalRef_res = (\<lambda>obj. 300),
                  FSEventStreamCreate_res = (\<lambda>info ps since lat fl. 400),
                  SetFieldByName_throws = (\<lambda>obj. False),
                  CFRunLoopGetCurrent_res = 500\<rparr>"

definition quiet :: nstate where
  "quiet = \<lparr>calls = [], globalRefs = [], liveStreams = [], globalThisRef = Map.empty,
            loopState = (\<lambda>rl. Idle), jpending = False, nout = []\<rparr>"

section \<open>Runs in which every chunk is constructed and forwarded\<close>


text \<open>
  Every request a callback of \<open>numEventsTotal\<close> events can make is granted: the local
  frame and the array of every round (whatever index the round starts at), every string
  conversion, and the handler does not throw.
\<close>

definition every_chunk_succeeds :: "jvm \<Rightarrow> size_t \<Rightarrow> bool" where
  "every_chunk_succeeds vm numEventsTotal \<longleftrightarrow>
     (\<forall>k eventIndex. eventIndex < numEventsTotal \<longrightarrow>
        PushLocalFrame_outcome vm k
          (numEventsToReport_of MAX_EVENTS_TO_REPORT_AT_ONCE numEventsTotal eventIndex + 5) = Succeeds \<and>
        NewObjectArray_outcome vm k
          (numEventsToReport_of MAX_EVENTS_TO_REPORT_AT_ONCE numEventsTotal eventIndex) = Succeeds) \<and>
     (\<forall>k i p. NewStringPlatform_outcome vm k i p = Succeeds) \<and>
     (\<forall>k c. \<not> handler_throws vm k c)"





section \<open>Lemmas about the loops\<close>

lemma all_succeed_jvm_ok: "all_succeed jvm_ok"
  by (simp add: all_succeed_def jvm_ok_def)

subsection \<open>The conversion loop\<close>

text \<open>When every conversion succeeds and the chunk lies inside the paths, the loop fills
  the array with the chunk's paths, in order, and leaves the state alone.\<close>

lemma convert_from_all_ok:
  assumes ok: "\<And>j. i \<le> j \<Longrightarrow> j < nat (sint n) \<Longrightarrow>
                 NewStringPlatform_outcome vm (round_no st) j (paths ! (unat e + j)) = Succeeds"
    and inb: "unat e + nat (sint n) \<le> length paths"
    and len: "length arr = nat (sint n)"
    and le: "i \<le> nat (sint n)"
  shows "convert_from vm tr paths e n i (Some arr) st =
           Inr (True, Some (take i arr @ map Some (take (nat (sint n) - i) (drop (unat e + i) paths))), st)"
  using ok len le
proof (induction k \<equiv> "nat (sint n) - i" arbitrary: i arr)
  case 0
  then have "\<not> int i < sint n" by linarith
  moreover from 0 have "take i arr = arr" by simp
  ultimately show ?case using 0
    by (subst convert_from.simps) simp
next
  case (Suc k)
  then have lt: "i < nat (sint n)" by linarith
  then have c1: "int i < sint n" by linarith
  from lt inb have c2: "unat e + i < length paths" by linarith
  have s: "NewStringPlatform_outcome vm (round_no st) i (paths ! (unat e + i)) = Succeeds"
    using Suc.prems(1) [of i] lt by simp
  let ?p = "paths ! (unat e + i)"
  have ih: "convert_from vm tr paths e n (Suc i) (Some (arr[i := Some ?p])) st =
           Inr (True, Some (take (Suc i) (arr[i := Some ?p]) @
                  map Some (take (nat (sint n) - Suc i) (drop (unat e + Suc i) paths))), st)"
    using Suc.hyps(2) Suc.prems lt by (intro Suc.hyps(1)) auto
  have t1: "take (Suc i) (arr[i := Some ?p]) = take i arr @ [Some ?p]"
    using lt Suc.prems(2) by (simp add: take_Suc_conv_app_nth)
  have t2: "take (nat (sint n) - i) (drop (unat e + i) paths) =
            ?p # take (nat (sint n) - Suc i) (drop (unat e + Suc i) paths)"
  proof -
    have "drop (unat e + i) paths = ?p # drop (Suc (unat e + i)) paths"
      using c2 by (simp add: Cons_nth_drop_Suc)
    moreover have "nat (sint n) - i = Suc (nat (sint n) - Suc i)" using lt by simp
    ultimately show ?thesis by simp
  qed
  show ?case
    apply (subst convert_from.simps)
    using c1 c2 s lt Suc.prems(2) ih t1 t2
    by (simp add: JNU_NewStringPlatform_def SetObjectArrayElement_def)
qed

text \<open>When the chunk reaches past the last path, the loop faults at the first index past
  the end.\<close>

lemma convert_from_fault:
  assumes ok: "\<And>j. i \<le> j \<Longrightarrow> unat e + j < length paths \<Longrightarrow>
                 NewStringPlatform_outcome vm (round_no st) j (paths ! (unat e + j)) = Succeeds"
    and past: "length paths < unat e + nat (sint n)"
    and start: "unat e + i \<le> length paths"
    and len: "length arr = nat (sint n)"
  shows "convert_from vm tr paths e n i (Some arr) st = Inl (ReadPastEventPaths (length paths) st)"
  using ok start len
proof (induction k \<equiv> "length paths - (unat e + i)" arbitrary: i arr)
  case 0
  then have eq: "unat e + i = length paths" by linarith
  with past have c1: "int i < sint n" by linarith
  show ?case
    apply (subst convert_from.simps)
    using c1 eq by simp
next
  case (Suc k)
  then have c2: "unat e + i < length paths" by linarith
  with past have c1: "int i < sint n" by linarith
  then have lt: "i < nat (sint n)" by linarith
  have s: "NewStringPlatform_outcome vm (round_no st) i (paths ! (unat e + i)) = Succeeds"
    using Suc.prems(1) [of i] c2 by simp
  let ?p = "paths ! (unat e + i)"
  have ih: "convert_from vm tr paths e n (Suc i) (Some (arr[i := Some ?p])) st =
           Inl (ReadPastEventPaths (length paths) st)"
    using Suc.hyps(2) Suc.prems c2 by (intro Suc.hyps(1)) auto
  show ?case
    apply (subst convert_from.simps)
    using c1 c2 s lt Suc.prems(3) ih
    by (simp add: JNU_NewStringPlatform_def SetObjectArrayElement_def)
qed

subsection \<open>One round of the callback's loop\<close>

lemma callback_body_ok:
  assumes ok: "all_succeed vm" and np: "\<not> pending st"
    and n: "n = numEventsToReport_of maxc N e"
    and inb: "unat e + nat (sint n) \<le> length paths"
  shows "callback_body vm tr maxc s h N paths e st =
           Inr (True, e + scast n, st\<lparr>forwarded := forwarded st @ [full_call s h paths e n]\<rparr>)"
proof -
  have conv: "convert_from vm tr paths e n 0 (Some (replicate (nat (sint n)) None)) st =
     Inr (True, Some (map Some (take (nat (sint n)) (drop (unat e) paths))), st)"
    using convert_from_all_ok [of 0 n vm st paths e "replicate (nat (sint n)) None" tr] ok inb
    by (simp add: all_succeed_def)
  have conv': "convert_from vm tr paths e n 0 (Some (replicate (nat (sint n)) None)) (st\<lparr>frames := Suc (frames st)\<rparr>) =
     Inr (True, Some (map Some (take (nat (sint n)) (drop (unat e) paths))), st\<lparr>frames := Suc (frames st)\<rparr>)"
    using convert_from_all_ok [of 0 n vm "st\<lparr>frames := Suc (frames st)\<rparr>" paths e "replicate (nat (sint n)) None" tr] ok inb
    by (simp add: all_succeed_def)
  show ?thesis
    using ok np conv'
    by (simp add: callback_body_def n [symmetric] all_succeed_def PushLocalFrame_def
        createJavaArray_def NewObjectArray_def ExceptionCheck_def convertToJavaStringArray_def
        JNU_CallMethodByName_def PopLocalFrame_def full_call_def Let_def)
qed

lemma callback_body_fault:
  assumes ok: "all_succeed vm" and np: "\<not> pending st"
    and n: "n = numEventsToReport_of maxc N e"
    and past: "length paths < unat e + nat (sint n)"
    and start: "unat e \<le> length paths"
  shows "callback_body vm tr maxc s h N paths e st =
           Inl (ReadPastEventPaths (length paths) (st\<lparr>frames := Suc (frames st)\<rparr>))"
proof -
  have conv': "convert_from vm tr paths e n 0 (Some (replicate (nat (sint n)) None)) (st\<lparr>frames := Suc (frames st)\<rparr>) =
     Inl (ReadPastEventPaths (length paths) (st\<lparr>frames := Suc (frames st)\<rparr>))"
    using convert_from_fault [of 0 e paths vm "st\<lparr>frames := Suc (frames st)\<rparr>" n "replicate (nat (sint n)) None" tr] ok past start
    by (simp add: all_succeed_def)
  show ?thesis
    using ok np conv'
    by (simp add: callback_body_def n [symmetric] all_succeed_def PushLocalFrame_def
        createJavaArray_def NewObjectArray_def ExceptionCheck_def convertToJavaStringArray_def
        JNU_CallMethodByName_def PopLocalFrame_def full_call_def Let_def)
qed

text \<open>The same round when only what this round needs succeeds: the handler may throw.\<close>

lemma round_no_frames [simp]: "round_no (st\<lparr>frames := f\<rparr>) = round_no st"
  by (simp add: round_no_def)

lemma callback_body_constructed:
  assumes push: "PushLocalFrame_outcome vm (round_no st) (n + 5) = Succeeds"
    and arr: "NewObjectArray_outcome vm (round_no st) n = Succeeds"
    and strs: "\<And>j. j < nat (sint n) \<Longrightarrow>
                 NewStringPlatform_outcome vm (round_no st) j (paths ! (unat e + j)) = Succeeds"
    and np: "\<not> pending st"
    and n: "n = numEventsToReport_of maxc N e"
    and inb: "unat e + nat (sint n) \<le> length paths"
  shows "callback_body vm tr maxc s h N paths e st =
           Inr (True, e + scast n,
                st\<lparr>pending := handler_throws vm (round_no st) (full_call s h paths e n) \<and> \<not> tr,
                   forwarded := forwarded st @ [full_call s h paths e n],
                   out := out st @ (if tr \<and> handler_throws vm (round_no st) (full_call s h paths e n)
                                    then [ExceptionDescribed] else [])\<rparr>)"
proof -
  have conv': "convert_from vm tr paths e n 0 (Some (replicate (nat (sint n)) None)) (st\<lparr>frames := Suc (frames st)\<rparr>) =
     Inr (True, Some (map Some (take (nat (sint n)) (drop (unat e) paths))), st\<lparr>frames := Suc (frames st)\<rparr>)"
    using convert_from_all_ok [of 0 n vm "st\<lparr>frames := Suc (frames st)\<rparr>" paths e "replicate (nat (sint n)) None" tr] strs inb
    by simp
  show ?thesis
    using push arr np conv'
    by (auto simp: callback_body_def n [symmetric] PushLocalFrame_def
        createJavaArray_def NewObjectArray_def ExceptionCheck_def convertToJavaStringArray_def
        JNU_CallMethodByName_def PopLocalFrame_def full_call_def Let_def ExceptionDescribe_def round_no_def)
qed

subsection \<open>Casts between \<open>size_t\<close> and \<open>jsize\<close>\<close>

lemma sint_ucast_small:
  assumes "unat (N :: 64 word) < 2 ^ 31"
  shows "sint (ucast N :: 32 word) = int (unat N)"
proof -
  have e: "uint N = int (unat N)" by (rule uint_nat)
  have "int (unat N) < int (2 ^ 31)" using assms by (rule iffD2 [OF of_nat_less_iff])
  then have u: "uint N < 2 ^ 31" unfolding e by simp
  have u0: "0 \<le> uint N" by simp
  have "uint (ucast N :: 32 word) = take_bit 32 (uint N)"
    by (simp add: unsigned_ucast_eq)
  also have "\<dots> = uint N"
    using u u0 by (simp add: take_bit_int_eq_self)
  finally have a: "uint (ucast N :: 32 word) = uint N" .
  have "(0::int) \<le> 2 ^ 31" by simp
  with u0 have "- (2 ^ 31) \<le> uint N" by linarith
  then have "signed_take_bit 31 (uint N) = uint N"
    using u by (rule signed_take_bit_int_eq_self)
  then have "sint (ucast N :: 32 word) = uint N"
    by (simp add: sint_uint a)
  then show ?thesis unfolding e .
qed

lemma scast_ucast_small:
  assumes "unat (N :: 64 word) < 2 ^ 31"
  shows "(scast (ucast N :: 32 word) :: 64 word) = N"
  by (simp add: scast_eq sint_ucast_small [OF assms])


subsection \<open>A callback whose events fit one chunk\<close>

lemma pending_traced [simp]:
  "pending (printf l st) = pending st" "forwarded (printf l st) = forwarded st"
  "frames (printf l st) = frames st"
  by (simp_all add: printf_def)

lemma callback_max_single_chunk:
  assumes ok: "all_succeed vm" and np: "\<not> pending st"
    and len: "length paths = unat N" and pos: "0 < N"
    and le: "N \<le> maxc" and small: "unat N < 2 ^ 31"
  shows "callback_max vm tr maxc s h N paths st =
           Some (Inr ((if tr then printf (HandlerThread h) (printf CallbackFired st) else st)
                  \<lparr>forwarded := forwarded st @ [full_call s h paths 0 (ucast N)]\<rparr>))"
proof -
  let ?st0 = "if tr then printf (HandlerThread h) (printf CallbackFired st) else st"
  have np0: "\<not> pending ?st0" using np by simp
  have "\<not> maxc < N" using le by (simp add: not_less)
  then have n: "ucast N = numEventsToReport_of maxc N 0"
    by (simp add: numEventsToReport_of_def)
  have inb: "unat (0 :: size_t) + nat (sint (ucast N :: jsize)) \<le> length paths"
    using len by (simp add: sint_ucast_small [OF small])
  have body: "callback_body vm tr maxc s h N paths 0 ?st0 =
      Inr (True, N, ?st0\<lparr>forwarded := forwarded ?st0 @ [full_call s h paths 0 (ucast N)]\<rparr>)"
    using callback_body_ok [OF ok np0 n inb, of tr s h] by (simp add: scast_ucast_small [OF small])
  have env: "GetEnv_ok vm" using ok by (simp add: all_succeed_def)
  have fin: "callback_loop vm tr maxc s h N paths True N
        (?st0\<lparr>forwarded := forwarded ?st0 @ [full_call s h paths 0 (ucast N)]\<rparr>) =
      Some (Inr (?st0\<lparr>forwarded := forwarded ?st0 @ [full_call s h paths 0 (ucast N)]\<rparr>))"
    by (subst callback_loop.simps) simp
  have "callback_loop vm tr maxc s h N paths True 0 ?st0 =
      Some (Inr (?st0\<lparr>forwarded := forwarded ?st0 @ [full_call s h paths 0 (ucast N)]\<rparr>))"
    apply (subst callback_loop.simps)
    using pos body fin by simp
  then show ?thesis
    using env by (simp add: callback_max_def Let_def)
qed


subsection \<open>Unfolding the callback's loop\<close>

lemma callback_loop_step:
  assumes "OK" and "eventIndex < N"
    and "callback_body vm tr maxc s h N paths eventIndex st = Inr (OK', eventIndex', st')"
  shows "callback_loop vm tr maxc s h N paths OK eventIndex st =
         callback_loop vm tr maxc s h N paths OK' eventIndex' st'"
  by (subst callback_loop.simps) (simp add: assms)

lemma callback_loop_fault:
  assumes "OK" and "eventIndex < N"
    and "callback_body vm tr maxc s h N paths eventIndex st = Inl f"
  shows "callback_loop vm tr maxc s h N paths OK eventIndex st = Some (Inl f)"
  by (subst callback_loop.simps) (simp add: assms)

lemma callback_loop_done:
  assumes "\<not> OK \<or> \<not> eventIndex < N"
  shows "callback_loop vm tr maxc s h N paths OK eventIndex st = Some (Inr st)"
  using assms by (subst callback_loop.simps) auto

subsection \<open>The conversion loop and one round, for any runtime\<close>

text \<open>A conversion that stays inside the paths and stores into an array returns, and
  makes no forwarding call.\<close>

lemma convert_from_returns:
  assumes inb: "unat e + nat (sint n) \<le> length paths"
  shows "\<exists>b a st'. convert_from vm tr paths e n i (Some arr) st = Inr (b, a, st') \<and>
                    forwarded st' = forwarded st"
proof (induction k \<equiv> "nat (sint n) - i" arbitrary: i arr st)
  case 0
  then have "\<not> int i < sint n" by linarith
  then show ?case by (subst convert_from.simps) auto
next
  case (Suc k)
  then have lt: "i < nat (sint n)" by linarith
  then have c1: "int i < sint n" by linarith
  from lt inb have c2: "unat e + i < length paths" by linarith
  let ?p = "paths ! (unat e + i)"
  show ?case
  proof (cases "NewStringPlatform_outcome vm (round_no st) i ?p")
    case Succeeds
    obtain arr' st2 where set: "SetObjectArrayElement arr i ?p st = (arr', st2)"
      by fastforce
    then have f2: "forwarded st2 = forwarded st"
      by (auto simp: SetObjectArrayElement_def split: if_splits)
    have "nat (sint n) - Suc i = k" using Suc.hyps(2) by linarith
    then have "\<exists>b a st'. convert_from vm tr paths e n (Suc i) (Some arr') st2 = Inr (b, a, st') \<and>
                    forwarded st' = forwarded st2"
      using Suc.hyps(1) [of "Suc i" arr' st2] by simp
    then show ?thesis
      apply (subst convert_from.simps)
      using c1 c2 Succeeds set f2 by (auto simp: JNU_NewStringPlatform_def)
  next
    case Fails
    then show ?thesis
      apply (subst convert_from.simps)
      using c1 c2 by (auto simp: JNU_NewStringPlatform_def ExceptionCheck_def ExceptionDescribe_def)
  next
    case Throws
    then show ?thesis
      apply (subst convert_from.simps)
      using c1 c2 by (auto simp: JNU_NewStringPlatform_def ExceptionCheck_def ExceptionDescribe_def)
  qed
qed


text \<open>Whatever the runtime answers (short of a NULL array without an exception), a round
  whose chunk lies inside the paths makes exactly one forwarding call, for the chunk's
  count and from the round's index.\<close>

lemma callback_body_one_call:
  assumes inb: "unat e + nat (sint n) \<le> length paths"
    and n: "n = numEventsToReport_of maxc N e"
    and nonull: "\<And>k len. NewObjectArray_outcome vm k len \<noteq> Fails"
  shows "\<exists>OK' c st'. callback_body vm tr maxc s h N paths e st = Inr (OK', e + scast n, st') \<and>
           forwarded st' = forwarded st @ [c] \<and> fc_count c = n \<and>
           fc_flagsPtr c = e \<and> fc_idsPtr c = e"
proof -
  obtain lfp st1 where push: "PushLocalFrame vm (n + 5) st = (lfp, st1)"
    by fastforce
  then have f1: "forwarded st1 = forwarded st"
    by (auto simp: PushLocalFrame_def split: jni_outcome.splits)
  obtain OK2 a st2 where create:
    "(if lfp then createJavaArray vm tr n st1 else (False, None, st1)) = (OK2, a, st2)"
    by (metis prod_cases3)
  have f2: "forwarded st2 = forwarded st1"
    using create
    by (auto simp: createJavaArray_def NewObjectArray_def ExceptionCheck_def ExceptionDescribe_def
        split: if_splits jni_outcome.splits)
  have some: "OK2 \<Longrightarrow> \<exists>arr. a = Some arr"
    using create nonull [of "round_no st1" n]
    by (auto simp: createJavaArray_def NewObjectArray_def ExceptionCheck_def ExceptionDescribe_def
        split: if_splits jni_outcome.splits)
  have "\<exists>OK3 a3 st3.
          (if OK2 then convertToJavaStringArray vm tr paths e n a st2 else Inr (False, a, st2)) =
            Inr (OK3, a3, st3) \<and> forwarded st3 = forwarded st2"
  proof (cases OK2)
    case True
    then obtain arr where "a = Some arr" using some by blast
    then show ?thesis
      using True convert_from_returns [OF inb, of vm tr 0 arr st2]
      by (auto simp: convertToJavaStringArray_def)
  next
    case False
    then show ?thesis by auto
  qed
  then obtain OK3 a3 st3 where conv:
    "(if OK2 then convertToJavaStringArray vm tr paths e n a st2 else Inr (False, a, st2)) =
       Inr (OK3, a3, st3)"
    and f3: "forwarded st3 = forwarded st2"
    by blast
  show ?thesis
    using push create conv f1 f2 f3
    by (auto simp: callback_body_def n [symmetric] JNU_CallMethodByName_def ExceptionCheck_def
        ExceptionDescribe_def PopLocalFrame_def Let_def)
qed


subsection \<open>A callback of at most \<open>MAX_EVENTS_TO_REPORT_AT_ONCE\<close> events\<close>

lemma unat_MAX: "unat MAX_EVENTS_TO_REPORT_AT_ONCE = 2147483645"
  by (simp add: MAX_EVENTS_TO_REPORT_AT_ONCE_def)

lemma below_MAX_small:
  assumes "N \<le> MAX_EVENTS_TO_REPORT_AT_ONCE"
  shows "unat N < 2 ^ 31"
proof -
  have "unat N \<le> unat MAX_EVENTS_TO_REPORT_AT_ONCE"
    using assms by (simp add: word_le_nat_alt)
  then show ?thesis by (simp add: unat_MAX)
qed

lemma numEventsToReport_first_round:
  assumes "N \<le> MAX_EVENTS_TO_REPORT_AT_ONCE"
  shows "numEventsToReport_of MAX_EVENTS_TO_REPORT_AT_ONCE N 0 = ucast N"
proof -
  have "\<not> MAX_EVENTS_TO_REPORT_AT_ONCE < N" using assms by (simp add: not_less)
  then show ?thesis by (simp add: numEventsToReport_of_def)
qed

lemma callback_one_call_any_runtime:
  assumes env: "GetEnv_ok vm"
    and nonull: "\<And>k len. NewObjectArray_outcome vm k len \<noteq> Fails"
    and len: "length paths = unat N" and pos: "0 < N"
    and le: "N \<le> MAX_EVENTS_TO_REPORT_AT_ONCE"
  shows "\<exists>c st'. callback vm tr s h N paths st = Some (Inr st') \<and>
           forwarded st' = forwarded st @ [c] \<and> fc_count c = ucast N \<and>
           fc_flagsPtr c = 0 \<and> fc_idsPtr c = 0"
proof -
  let ?M = MAX_EVENTS_TO_REPORT_AT_ONCE
  let ?st0 = "if tr then printf (HandlerThread h) (printf CallbackFired st) else st"
  have small: "unat N < 2 ^ 31" by (rule below_MAX_small [OF le])
  have n: "ucast N = numEventsToReport_of ?M N 0"
    by (rule numEventsToReport_first_round [OF le, symmetric])
  have inb: "unat (0 :: size_t) + nat (sint (ucast N :: jsize)) \<le> length paths"
    using len by (simp add: sint_ucast_small [OF small])
  obtain OK' c st' where body:
      "callback_body vm tr ?M s h N paths 0 ?st0 = Inr (OK', 0 + scast (ucast N :: jsize), st')"
    and fw: "forwarded st' = forwarded ?st0 @ [c]" and cnt: "fc_count c = ucast N"
    and ptr: "fc_flagsPtr c = 0" "fc_idsPtr c = 0"
    using callback_body_one_call [OF inb n nonull, of tr s h ?st0] by blast
  have body': "callback_body vm tr ?M s h N paths 0 ?st0 = Inr (OK', N, st')"
    using body by (simp add: scast_ucast_small [OF small])
  have "callback_loop vm tr ?M s h N paths True 0 ?st0 =
        callback_loop vm tr ?M s h N paths OK' N st'"
    using pos by (intro callback_loop_step [OF _ _ body']) simp_all
  also have "\<dots> = Some (Inr st')"
    by (rule callback_loop_done) simp
  finally have "callback vm tr s h N paths st = Some (Inr st')"
    using env by (simp add: callback_def callback_max_def)
  moreover have "forwarded st' = forwarded st @ [c]" using fw by simp
  ultimately show ?thesis using cnt ptr by blast
qed

lemma callback_one_chunk_constructed:
  assumes env: "GetEnv_ok vm" and ok: "every_chunk_succeeds vm N" and np: "\<not> pending st"
    and len: "length paths = unat N" and pos: "0 < N"
    and le: "N \<le> MAX_EVENTS_TO_REPORT_AT_ONCE"
  shows "callback vm tr s h N paths st =
           Some (Inr ((if tr then printf (HandlerThread h) (printf CallbackFired st) else st)
                  \<lparr>forwarded := forwarded st @ [full_call s h paths 0 (ucast N)]\<rparr>))"
proof -
  let ?M = MAX_EVENTS_TO_REPORT_AT_ONCE
  let ?st0 = "if tr then printf (HandlerThread h) (printf CallbackFired st) else st"
  let ?c = "full_call s h paths 0 (ucast N)"
  have small: "unat N < 2 ^ 31" by (rule below_MAX_small [OF le])
  have n: "ucast N = numEventsToReport_of ?M N 0"
    by (rule numEventsToReport_first_round [OF le, symmetric])
  have inb: "unat (0 :: size_t) + nat (sint (ucast N :: jsize)) \<le> length paths"
    using len by (simp add: sint_ucast_small [OF small])
  have np0: "\<not> pending ?st0" using np by simp
  have push: "PushLocalFrame_outcome vm (round_no ?st0) (ucast N + 5) = Succeeds"
    and arr: "NewObjectArray_outcome vm (round_no ?st0) (ucast N) = Succeeds"
    using ok pos unfolding every_chunk_succeeds_def n by blast+
  have strs: "\<And>j. NewStringPlatform_outcome vm (round_no ?st0) j (paths ! (unat (0 :: size_t) + j)) = Succeeds"
    and quiet: "\<not> handler_throws vm (round_no ?st0) ?c"
    using ok unfolding every_chunk_succeeds_def by blast+
  have "callback_body vm tr ?M s h N paths 0 ?st0 =
          Inr (True, 0 + scast (ucast N :: jsize),
               ?st0\<lparr>pending := handler_throws vm (round_no ?st0) ?c \<and> \<not> tr,
                    forwarded := forwarded ?st0 @ [?c],
                    out := out ?st0 @ (if tr \<and> handler_throws vm (round_no ?st0) ?c
                                       then [ExceptionDescribed] else [])\<rparr>)"
    by (rule callback_body_constructed [OF push arr strs np0 n inb])
  then have body: "callback_body vm tr ?M s h N paths 0 ?st0 =
          Inr (True, N, ?st0\<lparr>forwarded := forwarded st @ [?c]\<rparr>)"
    using quiet np0 by (simp add: scast_ucast_small [OF small])
  have "callback_loop vm tr ?M s h N paths True 0 ?st0 =
        callback_loop vm tr ?M s h N paths True N (?st0\<lparr>forwarded := forwarded st @ [?c]\<rparr>)"
    using pos by (intro callback_loop_step [OF _ _ body]) simp_all
  also have "\<dots> = Some (Inr (?st0\<lparr>forwarded := forwarded st @ [?c]\<rparr>))"
    by (rule callback_loop_done) simp
  finally show ?thesis
    using env by (simp add: callback_def callback_max_def)
qed


subsection \<open>Runs of more than one round\<close>

text \<open>With the file's maximum and \<open>INT_MAX - 1\<close> events: when the handler throws in the
  first round and tracing is off, the loop enters a second round, whose array is created
  but not filled, and makes a second forwarding call.\<close>

lemma callback_goes_on_after_handler_throws:
  assumes env: "GetEnv_ok vm"
    and push: "\<And>k c. PushLocalFrame_outcome vm k c = Succeeds"
    and arr: "\<And>k n. NewObjectArray_outcome vm k n = Succeeds"
    and strs: "\<And>k i p. NewStringPlatform_outcome vm k i p = Succeeds"
    and thr: "handler_throws vm (round_no st) (full_call s h eventPaths 0 2147483645)"
    and np: "\<not> pending st" and len: "length eventPaths = 2147483646"
  shows "callback vm False s h 2147483646 eventPaths st =
     Some (Inr (st\<lparr>pending := True,
                    forwarded := forwarded st @
                      [full_call s h eventPaths 0 2147483645,
                       \<lparr>fc_handler = h, fc_stream = s, fc_count = 2147483646,
                        fc_paths = Some (replicate 2147483646 None),
                        fc_flagsPtr = 2147483645, fc_idsPtr = 2147483645\<rparr>]\<rparr>))"
proof -
  let ?M = "MAX_EVENTS_TO_REPORT_AT_ONCE"
  let ?c1 = "full_call s h eventPaths 0 2147483645"
  let ?c2 = "\<lparr>fc_handler = h, fc_stream = s, fc_count = 2147483646,
                        fc_paths = Some (replicate 2147483646 None),
                        fc_flagsPtr = 2147483645, fc_idsPtr = 2147483645\<rparr>"
  let ?st1 = "st\<lparr>pending := True, forwarded := forwarded st @ [?c1]\<rparr>"
  let ?st2 = "st\<lparr>pending := True, forwarded := forwarded st @ [?c1, ?c2]\<rparr>"
  have n1: "numEventsToReport_of ?M 2147483646 0 = 2147483645"
    by (simp add: numEventsToReport_of_def MAX_EVENTS_TO_REPORT_AT_ONCE_def)
  have n2: "numEventsToReport_of ?M 2147483646 2147483645 = 2147483646"
    by (simp add: numEventsToReport_of_def MAX_EVENTS_TO_REPORT_AT_ONCE_def)
  have inb: "unat (0 :: size_t) + nat (sint (2147483645 :: jsize)) \<le> length eventPaths"
    using len by simp
  have sc: "(0 :: size_t) + scast (2147483645 :: jsize) = 2147483645"
    by simp
  have "callback_body vm False ?M s h 2147483646 eventPaths 0 st =
          Inr (True, 0 + scast (2147483645 :: jsize),
               st\<lparr>pending := handler_throws vm (round_no st) ?c1 \<and> \<not> False,
                  forwarded := forwarded st @ [?c1],
                  out := out st @ (if False \<and> handler_throws vm (round_no st) ?c1
                                   then [ExceptionDescribed] else [])\<rparr>)"
    by (rule callback_body_constructed [OF push arr strs np n1 [symmetric] inb])
  then have r1: "callback_body vm False ?M s h 2147483646 eventPaths 0 st = Inr (True, 2147483645, ?st1)"
    unfolding sc using thr by simp
  have r2: "callback_body vm False ?M s h 2147483646 eventPaths 2147483645 ?st1 =
              Inr (False, 2147483645 + 2147483646, ?st2)"
    using push arr
    by (simp add: callback_body_def n2 PushLocalFrame_def createJavaArray_def NewObjectArray_def
        ExceptionCheck_def JNU_CallMethodByName_def PopLocalFrame_def Let_def)
  have "callback_loop vm False ?M s h 2147483646 eventPaths True 0 st =
        callback_loop vm False ?M s h 2147483646 eventPaths True 2147483645 ?st1"
    by (rule callback_loop_step [OF _ _ r1]) simp_all
  also have "\<dots> = callback_loop vm False ?M s h 2147483646 eventPaths False (2147483645 + 2147483646) ?st2"
    by (rule callback_loop_step [OF _ _ r2]) simp_all
  also have "\<dots> = Some (Inr ?st2)"
    by (rule callback_loop_done) simp
  finally show ?thesis
    using env by (simp add: callback_def callback_max_def)
qed

text \<open>
  A second round is reached only when the runtime grants the first round's local frame,
  whose capacity \<open>INT_MAX + 3\<close> is negative as an \<open>int\<close>. With such a runtime and
  \<open>INT_MAX - 1\<close> events, the second round takes the total as its chunk size (the conditional
  of the file gives \<open>numEventsTotal\<close> where one event remains) and the conversion reads past
  the last path.
\<close>

lemma granted_negative_capacity_reads_past_the_paths:
  "numEventsToReport_of MAX_EVENTS_TO_REPORT_AT_ONCE 2147483646 2147483645 = 2147483646 \<and>
   callback jvm_ok False 1 2 2147483646 (replicate 2147483646 ''/tmp/a'') fresh =
     Some (Inl (ReadPastEventPaths 2147483646
       \<lparr>pending = False, frames = 1,
        forwarded = [\<lparr>fc_handler = 2, fc_stream = 1, fc_count = 2147483645,
                      fc_paths = Some (replicate 2147483645 (Some ''/tmp/a'')),
                      fc_flagsPtr = 0, fc_idsPtr = 0\<rparr>],
        out = []\<rparr>))"
proof -
  let ?ps = "replicate 2147483646 ''/tmp/a''"
  let ?M = "MAX_EVENTS_TO_REPORT_AT_ONCE"
  let ?c1 = "\<lparr>fc_handler = 2, fc_stream = 1, fc_count = 2147483645,
                      fc_paths = Some (replicate 2147483645 (Some ''/tmp/a'')),
                      fc_flagsPtr = 0, fc_idsPtr = 0\<rparr>"
  let ?st1 = "\<lparr>pending = False, frames = 0, forwarded = [?c1], out = []\<rparr>"
  have n1: "numEventsToReport_of ?M 2147483646 0 = 2147483645"
    by (simp add: numEventsToReport_of_def MAX_EVENTS_TO_REPORT_AT_ONCE_def)
  have n2: "numEventsToReport_of ?M 2147483646 2147483645 = 2147483646"
    by (simp add: numEventsToReport_of_def MAX_EVENTS_TO_REPORT_AT_ONCE_def)
  have r1: "callback_body jvm_ok False ?M 1 2 2147483646 ?ps 0 fresh = Inr (True, 2147483645, ?st1)"
    using callback_body_ok [OF all_succeed_jvm_ok, of fresh 2147483645 ?M 2147483646 0 ?ps False 1 2]
    by (simp add: n1 fresh_def full_call_def)
  have r2: "callback_body jvm_ok False ?M 1 2 2147483646 ?ps 2147483645 ?st1 =
              Inl (ReadPastEventPaths 2147483646 (?st1\<lparr>frames := Suc (frames ?st1)\<rparr>))"
    using callback_body_fault [OF all_succeed_jvm_ok, of ?st1 2147483646 ?M 2147483646 2147483645 ?ps False 1 2]
    by (simp add: n2)
  have "callback_loop jvm_ok False ?M 1 2 2147483646 ?ps True 0 fresh =
        callback_loop jvm_ok False ?M 1 2 2147483646 ?ps True 2147483645 ?st1"
    by (rule callback_loop_step [OF _ _ r1]) simp_all
  also have "\<dots> = Some (Inl (ReadPastEventPaths 2147483646 (?st1\<lparr>frames := Suc (frames ?st1)\<rparr>)))"
    by (rule callback_loop_fault [OF _ _ r2]) simp_all
  finally show ?thesis
    by (simp add: n2 callback_def callback_max_def jvm_ok_def)
qed

subsection \<open>Runtimes used in the examples\<close>




lemma every_chunk_succeeds_jvm_ok: "every_chunk_succeeds jvm_ok N"
  by (simp add: every_chunk_succeeds_def jvm_ok_def)

text \<open>When the local frame is refused the round still makes its forwarding call, with a
  NULL array, and the loop ends.\<close>

lemma callback_frame_refused:
  assumes env: "GetEnv_ok vm"
    and refuse: "PushLocalFrame_outcome vm (round_no st) (ucast N + 5) = Fails"
    and quiet: "\<not> handler_throws vm (round_no st)
                   \<lparr>fc_handler = h, fc_stream = s, fc_count = ucast N, fc_paths = None,
                    fc_flagsPtr = 0, fc_idsPtr = 0\<rparr>"
    and pos: "0 < N" and le: "N \<le> MAX_EVENTS_TO_REPORT_AT_ONCE"
  shows "callback vm False s h N paths st =
           Some (Inr (st\<lparr>forwarded := forwarded st @
                        [\<lparr>fc_handler = h, fc_stream = s, fc_count = ucast N, fc_paths = None,
                          fc_flagsPtr = 0, fc_idsPtr = 0\<rparr>]\<rparr>))"
proof -
  let ?M = MAX_EVENTS_TO_REPORT_AT_ONCE
  let ?c = "\<lparr>fc_handler = h, fc_stream = s, fc_count = ucast N, fc_paths = None,
                          fc_flagsPtr = 0, fc_idsPtr = 0\<rparr>"
  have small: "unat N < 2 ^ 31" by (rule below_MAX_small [OF le])
  have n: "numEventsToReport_of ?M N 0 = ucast N"
    by (rule numEventsToReport_first_round [OF le])
  have body: "callback_body vm False ?M s h N paths 0 st =
                Inr (False, N, st\<lparr>forwarded := forwarded st @ [?c]\<rparr>)"
    using refuse quiet
    by (simp add: callback_body_def n PushLocalFrame_def JNU_CallMethodByName_def
        ExceptionCheck_def Let_def scast_ucast_small [OF small] round_no_def)
  have "callback_loop vm False ?M s h N paths True 0 st =
        callback_loop vm False ?M s h N paths False N (st\<lparr>forwarded := forwarded st @ [?c]\<rparr>)"
    using pos by (intro callback_loop_step [OF _ _ body]) simp_all
  also have "\<dots> = Some (Inr (st\<lparr>forwarded := forwarded st @ [?c]\<rparr>))"
    by (rule callback_loop_done) simp
  finally show ?thesis
    using env by (simp add: callback_def callback_max_def)
qed

subsection \<open>Abbreviations for the proofs about the life cycle\<close>

lemmas create_defs =
  Java_sun_nio_fs_MacOSXWatchService_createNewEventStreamFor_def toCFString_def
  CFArrayCreate_def NewGlobalRef_def FSEventStreamCreate_def JNU_SetFieldByName_def
  nprintf_def called_def issued_def

lemmas stop_defs =
  Java_sun_nio_fs_MacOSXWatchService_runLoopStop_def CFRunLoopStop_def DeleteGlobalRef_def
  nprintf_def called_def issued_def

section \<open>The claims\<close>

text \<open>
  C10: when the callback fires and \<open>JNU_GetEnv\<close> gives no environment, the invocation is
  dropped: the callback returns normally, no forwarding call is made, no exception is
  left pending, no frame is pushed, and the only lines printed are the two entry lines,
  which are printed only when tracing is enabled.
\<close>

theorem callback_without_env_is_dropped:
  assumes "\<not> GetEnv_ok vm"
  shows "callback vm tracingEnabled streamRef clientCallBackInfo numEventsTotal eventPaths st =
           Some (Inr (st\<lparr>out := out st @ (if tracingEnabled
                                            then [CallbackFired, HandlerThread clientCallBackInfo]
                                            else [])\<rparr>))"
  using assms by (simp add: callback_def callback_max_def printf_def)

theorem callback_without_env_is_dropped_witness:
  "\<not> GetEnv_ok (jvm_ok\<lparr>GetEnv_ok := False\<rparr>) \<and>
   callback (jvm_ok\<lparr>GetEnv_ok := False\<rparr>) False 1 2 3 [''/tmp/a'', ''/tmp/b'', ''/tmp/c''] fresh =
     Some (Inr fresh)"
  using callback_without_env_is_dropped
          [of "jvm_ok\<lparr>GetEnv_ok := False\<rparr>" False 1 2 3 "[''/tmp/a'', ''/tmp/b'', ''/tmp/c'']" fresh]
  by (simp add: jvm_ok_def fresh_def)

text \<open>
  C8: disposing of a stream makes exactly three native calls, in this order:
  \<open>FSEventStreamStop\<close>, \<open>FSEventStreamInvalidate\<close> (unschedule), \<open>FSEventStreamRelease\<close>;
  the stream is then no longer alive.
\<close>

theorem dispose_stops_unschedules_releases:
  "issued w (Java_sun_nio_fs_MacOSXWatchService_FSEventStreamInvalidate s w) =
     [Call_FSEventStreamStop s, Call_FSEventStreamInvalidate s, Call_FSEventStreamRelease s] \<and>
   calls (Java_sun_nio_fs_MacOSXWatchService_FSEventStreamInvalidate s w) =
     calls w @ [Call_FSEventStreamStop s, Call_FSEventStreamInvalidate s, Call_FSEventStreamRelease s] \<and>
   liveStreams (Java_sun_nio_fs_MacOSXWatchService_FSEventStreamInvalidate s w) =
     remove1 s (liveStreams w)"
  by (simp add: issued_def Java_sun_nio_fs_MacOSXWatchService_FSEventStreamInvalidate_def
      FSEventStreamStop_def FSEventStreamInvalidate_def FSEventStreamRelease_def called_def)




text \<open>
  C2 (the code departs from the claim): a failure does not end the forwarding calls at
  once. With the maximum lowered to 2 and five events, a handler that throws on the
  second of the three chunks is called a third time, with an array that was created but
  not filled. With the file's maximum, a chunk whose array cannot be created is still
  forwarded, with a NULL array; and with \<open>INT_MAX - 1\<close> events a handler that throws on
  the first chunk is called again for the second.
\<close>

theorem forwarding_goes_on_after_a_failure:
  "callback_max (jvm_ok\<lparr>handler_throws := (\<lambda>k c. k = 1)\<rparr>) False 2 1 2 5
     [''/a'', ''/b'', ''/c'', ''/d'', ''/e''] fresh =
     Some (Inr \<lparr>pending = True, frames = 0,
                forwarded = [\<lparr>fc_handler = 2, fc_stream = 1, fc_count = 2,
                              fc_paths = Some [Some ''/a'', Some ''/b''],
                              fc_flagsPtr = 0, fc_idsPtr = 0\<rparr>,
                             \<lparr>fc_handler = 2, fc_stream = 1, fc_count = 2,
                              fc_paths = Some [Some ''/c'', Some ''/d''],
                              fc_flagsPtr = 2, fc_idsPtr = 2\<rparr>,
                             \<lparr>fc_handler = 2, fc_stream = 1, fc_count = 5,
                              fc_paths = Some [None, None, None, None, None],
                              fc_flagsPtr = 4, fc_idsPtr = 4\<rparr>],
                out = []\<rparr>) \<and>
   callback (jvm_ok\<lparr>NewObjectArray_outcome := (\<lambda>k n. Throws)\<rparr>) False 1 2 1 [''/a''] fresh =
     Some (Inr \<lparr>pending = True, frames = 0,
                forwarded = [\<lparr>fc_handler = 2, fc_stream = 1, fc_count = 1,
                              fc_paths = None, fc_flagsPtr = 0, fc_idsPtr = 0\<rparr>],
                out = []\<rparr>) \<and>
   callback (jvm_ok\<lparr>handler_throws := (\<lambda>k c. k = 0)\<rparr>) False 1 2 2147483646
     (replicate 2147483646 ''/tmp/a'') fresh =
     Some (Inr \<lparr>pending = True, frames = 0,
                forwarded = [\<lparr>fc_handler = 2, fc_stream = 1, fc_count = 2147483645,
                              fc_paths = Some (replicate 2147483645 (Some ''/tmp/a'')),
                              fc_flagsPtr = 0, fc_idsPtr = 0\<rparr>,
                             \<lparr>fc_handler = 2, fc_stream = 1, fc_count = 2147483646,
                              fc_paths = Some (replicate 2147483646 None),
                              fc_flagsPtr = 2147483645, fc_idsPtr = 2147483645\<rparr>],
                out = []\<rparr>)"
proof -
  let ?vm = "jvm_ok\<lparr>handler_throws := (\<lambda>k c. k = 0)\<rparr>"
  let ?ps = "replicate 2147483646 ''/tmp/a''"
  have three: "callback_max (jvm_ok\<lparr>handler_throws := (\<lambda>k c. k = 1)\<rparr>) False 2 1 2 5
     [''/a'', ''/b'', ''/c'', ''/d'', ''/e''] fresh =
     Some (Inr \<lparr>pending = True, frames = 0,
                forwarded = [\<lparr>fc_handler = 2, fc_stream = 1, fc_count = 2,
                              fc_paths = Some [Some ''/a'', Some ''/b''],
                              fc_flagsPtr = 0, fc_idsPtr = 0\<rparr>,
                             \<lparr>fc_handler = 2, fc_stream = 1, fc_count = 2,
                              fc_paths = Some [Some ''/c'', Some ''/d''],
                              fc_flagsPtr = 2, fc_idsPtr = 2\<rparr>,
                             \<lparr>fc_handler = 2, fc_stream = 1, fc_count = 5,
                              fc_paths = Some [None, None, None, None, None],
                              fc_flagsPtr = 4, fc_idsPtr = 4\<rparr>],
                out = []\<rparr>)"
    by code_simp
  have null: "callback (jvm_ok\<lparr>NewObjectArray_outcome := (\<lambda>k n. Throws)\<rparr>) False 1 2 1 [''/a''] fresh =
     Some (Inr \<lparr>pending = True, frames = 0,
                forwarded = [\<lparr>fc_handler = 2, fc_stream = 1, fc_count = 1,
                              fc_paths = None, fc_flagsPtr = 0, fc_idsPtr = 0\<rparr>],
                out = []\<rparr>)"
    by code_simp
  have "callback ?vm False 1 2 2147483646 ?ps fresh =
     Some (Inr (fresh\<lparr>pending := True,
                    forwarded := forwarded fresh @
                      [full_call 1 2 ?ps 0 2147483645,
                       \<lparr>fc_handler = 2, fc_stream = 1, fc_count = 2147483646,
                        fc_paths = Some (replicate 2147483646 None),
                        fc_flagsPtr = 2147483645, fc_idsPtr = 2147483645\<rparr>]\<rparr>))"
    by (rule callback_goes_on_after_handler_throws) (simp_all add: jvm_ok_def fresh_def round_no_def)
  moreover have "full_call 1 2 ?ps 0 2147483645 =
      \<lparr>fc_handler = 2, fc_stream = 1, fc_count = 2147483645,
       fc_paths = Some (replicate 2147483645 (Some ''/tmp/a'')),
       fc_flagsPtr = 0, fc_idsPtr = 0\<rparr>"
    by (simp add: full_call_def)
  ultimately have two: "callback ?vm False 1 2 2147483646 ?ps fresh =
     Some (Inr \<lparr>pending = True, frames = 0,
                forwarded = [\<lparr>fc_handler = 2, fc_stream = 1, fc_count = 2147483645,
                              fc_paths = Some (replicate 2147483645 (Some ''/tmp/a'')),
                              fc_flagsPtr = 0, fc_idsPtr = 0\<rparr>,
                             \<lparr>fc_handler = 2, fc_stream = 1, fc_count = 2147483646,
                              fc_paths = Some (replicate 2147483646 None),
                              fc_flagsPtr = 2147483645, fc_idsPtr = 2147483645\<rparr>],
                out = []\<rparr>)"
    by (simp add: fresh_def)
  from three null two show ?thesis by (intro conjI)
qed

text \<open>
  C3 (the code departs from the claim): the forwarding call is made whether or not the
  batch was constructed. When the conversion of the second of two paths fails, the
  handler is passed an array whose second slot is still null (and, tracing being on, no
  exception is pending when it is called); when no local frame can be pushed, it is passed
  a NULL array.
\<close>

theorem partial_and_null_batches_are_forwarded:
  "callback (jvm_ok\<lparr>NewStringPlatform_outcome := (\<lambda>k i p. if i = 1 then Throws else Succeeds)\<rparr>)
     True 1 2 2 [''/tmp/a'', ''/tmp/b''] fresh =
     Some (Inr \<lparr>pending = False, frames = 0,
                forwarded = [\<lparr>fc_handler = 2, fc_stream = 1, fc_count = 2,
                              fc_paths = Some [Some ''/tmp/a'', None],
                              fc_flagsPtr = 0, fc_idsPtr = 0\<rparr>],
                out = [CallbackFired, HandlerThread 2, ExceptionDescribed]\<rparr>) \<and>
   callback (jvm_ok\<lparr>PushLocalFrame_outcome := (\<lambda>k c. Fails)\<rparr>)
     False 1 2 2 [''/tmp/a'', ''/tmp/b''] fresh =
     Some (Inr \<lparr>pending = False, frames = 0,
                forwarded = [\<lparr>fc_handler = 2, fc_stream = 1, fc_count = 2,
                              fc_paths = None, fc_flagsPtr = 0, fc_idsPtr = 0\<rparr>],
                out = []\<rparr>)"
  by code_simp

text \<open>
  C4 (the claim as stated fails): the maximum of the file is \<open>INT_MAX - 2\<close> and cannot be
  set, so a callback of 150000 events makes one forwarding call for all 150000 events,
  whether the runtime grants the local frame (the call carries every path) or refuses it
  (the call carries a NULL array); it does not make three calls of 65536, 65536 and 18368.
\<close>

theorem callback_of_150000_events_is_one_batch:
  "callback jvm_ok False 1 2 150000 (replicate 150000 ''/tmp/a'') fresh =
     Some (Inr \<lparr>pending = False, frames = 0,
                forwarded = [\<lparr>fc_handler = 2, fc_stream = 1, fc_count = 150000,
                              fc_paths = Some (replicate 150000 (Some ''/tmp/a'')),
                              fc_flagsPtr = 0, fc_idsPtr = 0\<rparr>],
                out = []\<rparr>) \<and>
   callback (jvm_ok\<lparr>PushLocalFrame_outcome := (\<lambda>k c. Fails)\<rparr>) False 1 2 150000
       (replicate 150000 ''/tmp/a'') fresh =
     Some (Inr \<lparr>pending = False, frames = 0,
                forwarded = [\<lparr>fc_handler = 2, fc_stream = 1, fc_count = 150000,
                              fc_paths = None, fc_flagsPtr = 0, fc_idsPtr = 0\<rparr>],
                out = []\<rparr>) \<and>
   \<not> (\<exists>c1 c2 c3 st'.
         callback jvm_ok False 1 2 150000 (replicate 150000 ''/tmp/a'') fresh = Some (Inr st') \<and>
         forwarded st' = [c1, c2, c3] \<and>
         fc_count c1 = 65536 \<and> fc_count c2 = 65536 \<and> fc_count c3 = 18368)"
proof -
  let ?ps = "replicate 150000 ''/tmp/a''"
  have le: "(150000 :: size_t) \<le> MAX_EVENTS_TO_REPORT_AT_ONCE"
    by (simp add: MAX_EVENTS_TO_REPORT_AT_ONCE_def)
  have pos: "(0 :: size_t) < 150000" by simp
  have len: "length ?ps = unat (150000 :: size_t)" by simp
  have env: "GetEnv_ok jvm_ok" by (simp add: jvm_ok_def)
  have np: "\<not> pending fresh" by (simp add: fresh_def)
  have "callback jvm_ok False 1 2 150000 ?ps fresh =
          Some (Inr (fresh\<lparr>forwarded := forwarded fresh @
                       [full_call 1 2 ?ps 0 (ucast (150000 :: size_t))]\<rparr>))"
    using callback_one_chunk_constructed [OF env every_chunk_succeeds_jvm_ok np len pos le, of False 1 2]
    by simp
  moreover have "full_call 1 2 ?ps 0 (ucast (150000 :: size_t)) =
      \<lparr>fc_handler = 2, fc_stream = 1, fc_count = 150000,
       fc_paths = Some (replicate 150000 (Some ''/tmp/a'')),
       fc_flagsPtr = 0, fc_idsPtr = 0\<rparr>"
    by (simp add: full_call_def)
  ultimately have one: "callback jvm_ok False 1 2 150000 ?ps fresh =
     Some (Inr \<lparr>pending = False, frames = 0,
                forwarded = [\<lparr>fc_handler = 2, fc_stream = 1, fc_count = 150000,
                              fc_paths = Some (replicate 150000 (Some ''/tmp/a'')),
                              fc_flagsPtr = 0, fc_idsPtr = 0\<rparr>],
                out = []\<rparr>)"
    by (simp add: fresh_def)
  let ?vm = "jvm_ok\<lparr>PushLocalFrame_outcome := (\<lambda>k c. Fails)\<rparr>"
  have "callback ?vm False 1 2 150000 ?ps fresh =
           Some (Inr (fresh\<lparr>forwarded := forwarded fresh @
                        [\<lparr>fc_handler = 2, fc_stream = 1, fc_count = ucast (150000 :: size_t),
                          fc_paths = None, fc_flagsPtr = 0, fc_idsPtr = 0\<rparr>]\<rparr>))"
    by (rule callback_frame_refused [OF _ _ _ pos le]) (simp_all add: jvm_ok_def)
  then have refused: "callback ?vm False 1 2 150000 ?ps fresh =
     Some (Inr \<lparr>pending = False, frames = 0,
                forwarded = [\<lparr>fc_handler = 2, fc_stream = 1, fc_count = 150000,
                              fc_paths = None, fc_flagsPtr = 0, fc_idsPtr = 0\<rparr>],
                out = []\<rparr>)"
    by (simp add: fresh_def)
  have "\<not> (\<exists>c1 c2 c3 st'.
         callback jvm_ok False 1 2 150000 ?ps fresh = Some (Inr st') \<and>
         forwarded st' = [c1, c2, c3] \<and>
         fc_count c1 = 65536 \<and> fc_count c2 = 65536 \<and> fc_count c3 = 18368)"
    unfolding one by auto
  with one refused show ?thesis by (intro conjI)
qed

text \<open>
  C4 (amended): a callback of 150000 events, with a valid environment and a runtime that
  gives no NULL array without an exception, returns after exactly one forwarding call, for
  150000 events from index 0 of the flags and of the ids; that size is the minimum of the
  events remaining and the maximum; and when every construction and the forwarding call
  succeed, the call carries all 150000 paths in their order.
\<close>

theorem one_call_for_150000_events:
  assumes env: "GetEnv_ok vm"
    and nonull: "\<forall>k n. NewObjectArray_outcome vm k n \<noteq> Fails"
    and len: "length eventPaths = 150000"
  shows "(\<exists>c st'. callback vm tracingEnabled streamRef clientCallBackInfo 150000 eventPaths st =
                    Some (Inr st') \<and>
                  forwarded st' = forwarded st @ [c] \<and> fc_count c = 150000 \<and>
                  fc_flagsPtr c = 0 \<and> fc_idsPtr c = 0) \<and>
         uint (numEventsToReport_of MAX_EVENTS_TO_REPORT_AT_ONCE 150000 0) =
           min (uint (150000 - 0 :: size_t)) (uint MAX_EVENTS_TO_REPORT_AT_ONCE) \<and>
         (every_chunk_succeeds vm 150000 \<and> \<not> pending st \<longrightarrow>
            callback vm tracingEnabled streamRef clientCallBackInfo 150000 eventPaths st =
              Some (Inr ((if tracingEnabled
                          then printf (HandlerThread clientCallBackInfo) (printf CallbackFired st)
                          else st)
                     \<lparr>forwarded := forwarded st @
                        [\<lparr>fc_handler = clientCallBackInfo, fc_stream = streamRef,
                          fc_count = 150000, fc_paths = Some (map Some eventPaths),
                          fc_flagsPtr = 0, fc_idsPtr = 0\<rparr>]\<rparr>)))"
proof -
  have le: "(150000 :: size_t) \<le> MAX_EVENTS_TO_REPORT_AT_ONCE"
    by (simp add: MAX_EVENTS_TO_REPORT_AT_ONCE_def)
  have pos: "(0 :: size_t) < 150000" by simp
  have len': "length eventPaths = unat (150000 :: size_t)" using len by simp
  have nn: "\<And>k n. NewObjectArray_outcome vm k n \<noteq> Fails" using nonull by blast
  have any: "\<exists>c st'. callback vm tracingEnabled streamRef clientCallBackInfo 150000 eventPaths st =
                    Some (Inr st') \<and>
                  forwarded st' = forwarded st @ [c] \<and> fc_count c = 150000 \<and>
                  fc_flagsPtr c = 0 \<and> fc_idsPtr c = 0"
    using callback_one_call_any_runtime [OF env nn len' pos le, of tracingEnabled streamRef clientCallBackInfo st]
    by simp
  have size: "uint (numEventsToReport_of MAX_EVENTS_TO_REPORT_AT_ONCE 150000 0) =
           min (uint (150000 - 0 :: size_t)) (uint MAX_EVENTS_TO_REPORT_AT_ONCE)"
    unfolding numEventsToReport_first_round [OF le]
    by (simp add: MAX_EVENTS_TO_REPORT_AT_ONCE_def)
  have full: "full_call streamRef clientCallBackInfo eventPaths 0 (ucast (150000 :: size_t)) =
                \<lparr>fc_handler = clientCallBackInfo, fc_stream = streamRef,
                  fc_count = 150000, fc_paths = Some (map Some eventPaths),
                  fc_flagsPtr = 0, fc_idsPtr = 0\<rparr>"
    using len by (simp add: full_call_def)
  have built: "every_chunk_succeeds vm 150000 \<and> \<not> pending st \<longrightarrow>
            callback vm tracingEnabled streamRef clientCallBackInfo 150000 eventPaths st =
              Some (Inr ((if tracingEnabled
                          then printf (HandlerThread clientCallBackInfo) (printf CallbackFired st)
                          else st)
                     \<lparr>forwarded := forwarded st @
                        [\<lparr>fc_handler = clientCallBackInfo, fc_stream = streamRef,
                          fc_count = 150000, fc_paths = Some (map Some eventPaths),
                          fc_flagsPtr = 0, fc_idsPtr = 0\<rparr>]\<rparr>))"
  proof (intro impI, elim conjE)
    assume ok: "every_chunk_succeeds vm 150000" and np: "\<not> pending st"
    show "callback vm tracingEnabled streamRef clientCallBackInfo 150000 eventPaths st =
              Some (Inr ((if tracingEnabled
                          then printf (HandlerThread clientCallBackInfo) (printf CallbackFired st)
                          else st)
                     \<lparr>forwarded := forwarded st @
                        [\<lparr>fc_handler = clientCallBackInfo, fc_stream = streamRef,
                          fc_count = 150000, fc_paths = Some (map Some eventPaths),
                          fc_flagsPtr = 0, fc_idsPtr = 0\<rparr>]\<rparr>))"
      using callback_one_chunk_constructed [OF env ok np len' pos le, of tracingEnabled streamRef clientCallBackInfo]
      unfolding full .
  qed
  from any size built show ?thesis by (intro conjI)
qed


theorem one_call_for_150000_events_witness:
  "GetEnv_ok jvm_ok \<and> (\<forall>k n. NewObjectArray_outcome jvm_ok k n \<noteq> Fails) \<and>
   length (replicate 150000 ''/tmp/a'') = 150000 \<and>
   every_chunk_succeeds jvm_ok 150000 \<and> \<not> pending fresh \<and>
   callback jvm_ok False 1 2 150000 (replicate 150000 ''/tmp/a'') fresh =
     Some (Inr \<lparr>pending = False, frames = 0,
                forwarded = [\<lparr>fc_handler = 2, fc_stream = 1, fc_count = 150000,
                              fc_paths = Some (replicate 150000 (Some ''/tmp/a'')),
                              fc_flagsPtr = 0, fc_idsPtr = 0\<rparr>],
                out = []\<rparr>)"
proof -
  have env: "GetEnv_ok jvm_ok" and nonull: "\<forall>k n. NewObjectArray_outcome jvm_ok k n \<noteq> Fails"
    by (simp_all add: jvm_ok_def)
  have len: "length (replicate 150000 ''/tmp/a'') = 150000" by simp
  have np: "\<not> pending fresh" by (simp add: fresh_def)
  from one_call_for_150000_events [OF env nonull len, of False 1 2 fresh]
  have "every_chunk_succeeds jvm_ok 150000 \<and> \<not> pending fresh \<longrightarrow>
          callback jvm_ok False 1 2 150000 (replicate 150000 ''/tmp/a'') fresh =
            Some (Inr (fresh\<lparr>forwarded := forwarded fresh @
                        [\<lparr>fc_handler = 2, fc_stream = 1, fc_count = 150000,
                          fc_paths = Some (map Some (replicate 150000 ''/tmp/a'')),
                          fc_flagsPtr = 0, fc_idsPtr = 0\<rparr>]\<rparr>))"
    by simp
  with every_chunk_succeeds_jvm_ok np
  have "callback jvm_ok False 1 2 150000 (replicate 150000 ''/tmp/a'') fresh =
            Some (Inr (fresh\<lparr>forwarded := forwarded fresh @
                        [\<lparr>fc_handler = 2, fc_stream = 1, fc_count = 150000,
                          fc_paths = Some (map Some (replicate 150000 ''/tmp/a'')),
                          fc_flagsPtr = 0, fc_idsPtr = 0\<rparr>]\<rparr>))"
    by blast
  then have "callback jvm_ok False 1 2 150000 (replicate 150000 ''/tmp/a'') fresh =
     Some (Inr \<lparr>pending = False, frames = 0,
                forwarded = [\<lparr>fc_handler = 2, fc_stream = 1, fc_count = 150000,
                              fc_paths = Some (replicate 150000 (Some ''/tmp/a'')),
                              fc_flagsPtr = 0, fc_idsPtr = 0\<rparr>],
                out = []\<rparr>)"
    by (simp add: fresh_def)
  then show ?thesis
    using env nonull len every_chunk_succeeds_jvm_ok np by blast
qed

text \<open>
  C5 (the claim as stated fails): when the run loop is pumping, the stop function returns
  with the global reference already deleted while the loop is only asked to stop: it has
  not stopped.
\<close>

theorem runLoopStop_releases_while_loop_not_stopped:
  "(let w = Java_sun_nio_fs_MacOSXWatchService_runLoopStop False 3 5
              (quiet\<lparr>globalRefs := [5], loopState := (\<lambda>rl. Idle)(3 := Pumping)\<rparr>)
    in 5 \<notin> set (globalRefs w) \<and> loopState w 3 = StopRequested \<and> loopState w 3 \<noteq> Stopped)"
  by (simp add: stop_defs quiet_def Let_def)

text \<open>
  C5 (amended): the stop function makes exactly two native calls: it asks the run loop to
  stop and then, at once and without waiting for the loop, deletes the global reference,
  exactly once. The only change to the run loop is from pumping to stop-requested.
\<close>

theorem runLoopStop_signals_then_releases_at_once:
  "issued w (Java_sun_nio_fs_MacOSXWatchService_runLoopStop tracingEnabled rl h w) =
     [Call_CFRunLoopStop rl, Call_DeleteGlobalRef h] \<and>
   length (filter (\<lambda>c. c = Call_DeleteGlobalRef h)
             (issued w (Java_sun_nio_fs_MacOSXWatchService_runLoopStop tracingEnabled rl h w))) = 1 \<and>
   globalRefs (Java_sun_nio_fs_MacOSXWatchService_runLoopStop tracingEnabled rl h w) =
     remove1 h (globalRefs w) \<and>
   loopState (Java_sun_nio_fs_MacOSXWatchService_runLoopStop tracingEnabled rl h w) =
     (loopState w)(rl := (if loopState w rl = Pumping then StopRequested else loopState w rl))"
  by (simp add: stop_defs Let_def)

text \<open>
  C6: when the path cannot be turned into a platform string, the array of paths cannot
  be created, or the FSEvents service refuses the stream, the create function returns 0,
  no stream is alive that was not before, and the function deletes no global reference:
  a reference it acquired before the refusal is still alive when it returns.
\<close>

theorem failed_creation_returns_0_and_releases_nothing:
  assumes "toCFString_res os dir = 0 \<or>
           CFArrayCreate_res os (toCFString_res os dir) = 0 \<or>
           FSEventStreamCreate_res os (NewGlobalRef_res os obj)
             (CFArrayCreate_res os (toCFString_res os dir))
             kFSEventStreamEventIdSinceNow latency flags = 0"
  shows "(case Java_sun_nio_fs_MacOSXWatchService_createNewEventStreamFor os tracingEnabled dir
                 latency flags obj w of
            (result, w') \<Rightarrow>
              result = 0 \<and>
              liveStreams w' = liveStreams w \<and>
              (\<forall>h. Call_DeleteGlobalRef h \<notin> set (issued w w')) \<and>
              globalRefs w' =
                globalRefs w @
                  (if toCFString_res os dir \<noteq> 0 \<and> CFArrayCreate_res os (toCFString_res os dir) \<noteq> 0 \<and>
                      NewGlobalRef_res os obj \<noteq> 0
                   then [NewGlobalRef_res os obj] else []))"
  using assms
  by (auto simp: create_defs Let_def split: prod.splits)

theorem failed_creation_returns_0_and_releases_nothing_witness:
  "FSEventStreamCreate_res (platform_ok\<lparr>FSEventStreamCreate_res := (\<lambda>info ps since lat fl. 0)\<rparr>)
      300 200 kFSEventStreamEventIdSinceNow 5 0 = 0 \<and>
   (case Java_sun_nio_fs_MacOSXWatchService_createNewEventStreamFor
           (platform_ok\<lparr>FSEventStreamCreate_res := (\<lambda>info ps since lat fl. 0)\<rparr>)
           False ''/tmp/a'' 5 0 7 quiet of
      (result, w') \<Rightarrow> result = 0 \<and> liveStreams w' = [] \<and> globalRefs w' = [300])"
  using failed_creation_returns_0_and_releases_nothing
          [where os = "platform_ok\<lparr>FSEventStreamCreate_res := (\<lambda>info ps since lat fl. 0)\<rparr>"
             and dir = "''/tmp/a''" and obj = 7 and latency = 5 and flags = 0
             and tracingEnabled = False and w = quiet]
  by (simp add: platform_ok_def quiet_def split: prod.splits)

text \<open>
  C7: when the path and the array of paths exist and the runtime grants the global
  reference, the create function makes its calls in this order: \<open>NewGlobalRef\<close>, then
  \<open>FSEventStreamCreate\<close> with the reference as context and events asked for since now,
  then the store of the reference into \<open>globalThisRef\<close> if a stream was made. The reference
  is held from the \<open>NewGlobalRef\<close> call on and still held at return, the stream made is
  alive and is the value returned (0 if the store fails), and the function neither
  schedules nor starts a stream: that is what the scheduling function does, with the stream
  it is given.
\<close>

theorem create_acquires_reference_then_requests_watch_since_now:
  assumes path: "toCFString_res os dir \<noteq> 0"
    and arr: "CFArrayCreate_res os (toCFString_res os dir) \<noteq> 0"
    and ref: "NewGlobalRef_res os obj \<noteq> 0"
  shows "(let p = toCFString_res os dir;
              ps = CFArrayCreate_res os p;
              g = NewGlobalRef_res os obj;
              stream = FSEventStreamCreate_res os g ps kFSEventStreamEventIdSinceNow latency flags
          in (case Java_sun_nio_fs_MacOSXWatchService_createNewEventStreamFor os tracingEnabled dir
                     latency flags obj w of
                (result, w') \<Rightarrow>
                  issued w w' =
                    [Call_toCFString dir, Call_CFArrayCreate p, Call_NewGlobalRef obj,
                     Call_FSEventStreamCreate g ps kFSEventStreamEventIdSinceNow latency flags] @
                    (if stream \<noteq> 0 then [Call_SetField_globalThisRef g g] else []) \<and>
                  globalRefs w' = globalRefs w @ [g] \<and>
                  liveStreams w' = liveStreams w @ (if stream \<noteq> 0 then [stream] else []) \<and>
                  result = (if stream \<noteq> 0 \<and> (SetFieldByName_throws os g \<or> jpending w)
                            then 0 else stream) \<and>
                  globalThisRef w' =
                    (if stream \<noteq> 0 \<and> \<not> SetFieldByName_throws os g
                     then (globalThisRef w)(g \<mapsto> g) else globalThisRef w)) \<and>
             fst (NewGlobalRef os obj w) = g \<and>
             globalRefs (snd (NewGlobalRef os obj w)) = globalRefs w @ [g]) \<and>
         issued w (Java_sun_nio_fs_MacOSXWatchService_scheduleEventLoop os tracingEnabled eventStreamRef w) =
           [Call_FSEventStreamScheduleWithRunLoop eventStreamRef (CFRunLoopGetCurrent_res os),
            Call_FSEventStreamStart eventStreamRef]"
proof -
  have schedule:
    "issued w (Java_sun_nio_fs_MacOSXWatchService_scheduleEventLoop os tracingEnabled eventStreamRef w) =
       [Call_FSEventStreamScheduleWithRunLoop eventStreamRef (CFRunLoopGetCurrent_res os),
        Call_FSEventStreamStart eventStreamRef]"
    by (simp add: Java_sun_nio_fs_MacOSXWatchService_scheduleEventLoop_def issued_def called_def
        nprintf_def Let_def)
  show ?thesis
    using path arr ref schedule
    by (auto simp: create_defs Let_def split: prod.splits)
qed

theorem create_acquires_reference_then_requests_watch_since_now_witness:
  "toCFString_res platform_ok ''/tmp/a'' \<noteq> 0 \<and>
   CFArrayCreate_res platform_ok (toCFString_res platform_ok ''/tmp/a'') \<noteq> 0 \<and>
   NewGlobalRef_res platform_ok 7 \<noteq> 0 \<and>
   (case Java_sun_nio_fs_MacOSXWatchService_createNewEventStreamFor platform_ok False ''/tmp/a''
           5 0 7 quiet of
      (result, w') \<Rightarrow>
        result = 400 \<and>
        issued quiet w' =
          [Call_toCFString ''/tmp/a'', Call_CFArrayCreate 100, Call_NewGlobalRef 7,
           Call_FSEventStreamCreate 300 200 kFSEventStreamEventIdSinceNow 5 0,
           Call_SetField_globalThisRef 300 300] \<and>
        globalRefs w' = [300] \<and> liveStreams w' = [400] \<and> globalThisRef w' 300 = Some 300)"
proof -
  have path: "toCFString_res platform_ok ''/tmp/a'' \<noteq> 0"
    and arr: "CFArrayCreate_res platform_ok (toCFString_res platform_ok ''/tmp/a'') \<noteq> 0"
    and ref: "NewGlobalRef_res platform_ok 7 \<noteq> 0"
    by (simp_all add: platform_ok_def)
  show ?thesis
    using create_acquires_reference_then_requests_watch_since_now
            [OF path arr ref, where tracingEnabled = False and latency = 5 and flags = 0
               and w = quiet and eventStreamRef = 400]
          path arr ref
    by (simp add: platform_ok_def quiet_def Let_def split: prod.splits)
qed

text \<open>
  C9 (the code departs from the claim): tracing changes what the callback leaves behind
  and what it forwards next. When the handler throws, the traced run describes the
  exception, which clears it, and the untraced run leaves it pending; the next callback
  then forwards a converted path when traced and an array that was never filled when not.
\<close>

theorem tracing_changes_the_outcome:
  "callback (jvm_ok\<lparr>handler_throws := (\<lambda>k c. k = 0)\<rparr>) True 1 2 1 [''/tmp/a''] fresh =
     Some (Inr \<lparr>pending = False, frames = 0,
                forwarded = [\<lparr>fc_handler = 2, fc_stream = 1, fc_count = 1,
                              fc_paths = Some [Some ''/tmp/a''],
                              fc_flagsPtr = 0, fc_idsPtr = 0\<rparr>],
                out = [CallbackFired, HandlerThread 2, ExceptionDescribed]\<rparr>) \<and>
   callback (jvm_ok\<lparr>handler_throws := (\<lambda>k c. k = 0)\<rparr>) False 1 2 1 [''/tmp/a''] fresh =
     Some (Inr \<lparr>pending = True, frames = 0,
                forwarded = [\<lparr>fc_handler = 2, fc_stream = 1, fc_count = 1,
                              fc_paths = Some [Some ''/tmp/a''],
                              fc_flagsPtr = 0, fc_idsPtr = 0\<rparr>],
                out = []\<rparr>) \<and>
   callback (jvm_ok\<lparr>handler_throws := (\<lambda>k c. k = 0)\<rparr>) True 1 2 1 [''/tmp/b'']
       \<lparr>pending = False, frames = 0,
        forwarded = [\<lparr>fc_handler = 2, fc_stream = 1, fc_count = 1,
                      fc_paths = Some [Some ''/tmp/a''],
                      fc_flagsPtr = 0, fc_idsPtr = 0\<rparr>],
        out = [CallbackFired, HandlerThread 2, ExceptionDescribed]\<rparr> =
     Some (Inr \<lparr>pending = False, frames = 0,
                forwarded = [\<lparr>fc_handler = 2, fc_stream = 1, fc_count = 1,
                              fc_paths = Some [Some ''/tmp/a''],
                              fc_flagsPtr = 0, fc_idsPtr = 0\<rparr>,
                             \<lparr>fc_handler = 2, fc_stream = 1, fc_count = 1,
                              fc_paths = Some [Some ''/tmp/b''],
                              fc_flagsPtr = 0, fc_idsPtr = 0\<rparr>],
                out = [CallbackFired, HandlerThread 2, ExceptionDescribed,
                       CallbackFired, HandlerThread 2]\<rparr>) \<and>
   callback (jvm_ok\<lparr>handler_throws := (\<lambda>k c. k = 0)\<rparr>) False 1 2 1 [''/tmp/b'']
       \<lparr>pending = True, frames = 0,
        forwarded = [\<lparr>fc_handler = 2, fc_stream = 1, fc_count = 1,
                      fc_paths = Some [Some ''/tmp/a''],
                      fc_flagsPtr = 0, fc_idsPtr = 0\<rparr>],
        out = []\<rparr> =
     Some (Inr \<lparr>pending = True, frames = 0,
                forwarded = [\<lparr>fc_handler = 2, fc_stream = 1, fc_count = 1,
                              fc_paths = Some [Some ''/tmp/a''],
                              fc_flagsPtr = 0, fc_idsPtr = 0\<rparr>,
                             \<lparr>fc_handler = 2, fc_stream = 1, fc_count = 1,
                              fc_paths = Some [None],
                              fc_flagsPtr = 0, fc_idsPtr = 0\<rparr>],
                out = []\<rparr>)"
  by code_simp

end
